theory Spec2Isabelle
  imports Main "HOL-Library.Char_ord" "HOL-Library.List_Lexorder" "HOL-Library.Option_ord"
begin

section \<open>PromptHub: the query functions and the two read endpoints\<close>

text \<open>
  The development follows \<^verbatim>\<open>lib/queries.js\<close> (searchPrompts, getPromptById,
  getCategories, getTags, getPromptCount; in this snapshot its text is the second part
  of \<^verbatim>\<open>components/PromptList.js\<close>), the route handler of \<^verbatim>\<open>GET /api/prompts\<close>
  (\<^verbatim>\<open>unnamed/part_002\<close>) and \<^verbatim>\<open>app/api/stats/route.js\<close>. Every function of
  \<^verbatim>\<open>queries.js\<close> builds one
  request with the supabase-js query builder, awaits it, and post-processes the reply.
  The request is a value of type \<open>dbQuery\<close>; the round trip is a function from requests
  to outcomes that the functions take as an argument, so that statements about a failing
  Data Store quantify over every such function.
\<close>

subsection \<open>JavaScript values used by the code\<close>

text \<open>
  Strings are lists of characters with codes below 256. \<^verbatim>\<open>String.prototype.trim\<close>
  removes white space and line terminators at both ends; in this range these are
  TAB, LF, VT, FF, CR, SPACE and NBSP.
\<close>

definition js_whitespace :: "char \<Rightarrow> bool" where
  "js_whitespace c =
     (c \<in> set [CHR 0x09, CHR 0x0A, CHR 0x0B, CHR 0x0C, CHR 0x0D, CHR 0x20, CHR 0xA0])"

definition trim :: "string \<Rightarrow> string" where
  "trim s = rev (dropWhile js_whitespace (rev (dropWhile js_whitespace s)))"

text \<open>
  A number is an integer, NaN (what \<^verbatim>\<open>parseInt\<close> yields on text without digits) or
  one of the two infinities. \<^verbatim>\<open>parseInt\<close> yields the double nearest to the integer
  it reads (\<open>to_double\<close>): exact up to \<open>2^53\<close>, rounded to 53 significant bits beyond,
  ties to the even neighbour, and an infinity when the result needs more than 1024
  bits. Sums and differences of integers are taken exactly, which is what the
  arithmetic on doubles yields below \<open>2^53\<close>; with NaN they are NaN.
\<close>

datatype jsnum = NaN | Num int | Infinity | NegInfinity

fun js_add :: "jsnum \<Rightarrow> jsnum \<Rightarrow> jsnum" where
  "js_add (Num a) (Num b) = Num (a + b)"
| "js_add NaN _ = NaN"
| "js_add _ NaN = NaN"
| "js_add Infinity NegInfinity = NaN"
| "js_add NegInfinity Infinity = NaN"
| "js_add Infinity _ = Infinity"
| "js_add _ Infinity = Infinity"
| "js_add NegInfinity _ = NegInfinity"
| "js_add _ NegInfinity = NegInfinity"

fun js_sub :: "jsnum \<Rightarrow> jsnum \<Rightarrow> jsnum" where
  "js_sub (Num a) (Num b) = Num (a - b)"
| "js_sub NaN _ = NaN"
| "js_sub _ NaN = NaN"
| "js_sub Infinity Infinity = NaN"
| "js_sub NegInfinity NegInfinity = NaN"
| "js_sub Infinity _ = Infinity"
| "js_sub _ NegInfinity = Infinity"
| "js_sub NegInfinity _ = NegInfinity"
| "js_sub _ Infinity = NegInfinity"

function bit_length :: "int \<Rightarrow> nat" where
  "bit_length n = (if n \<le> 0 then 0 else Suc (bit_length (n div 2)))"
  by pat_completeness auto
termination
  by (relation "measure nat") auto

definition round_to_53 :: "int \<Rightarrow> int" where
  "round_to_53 n =
     (let e = bit_length n - 53;
          q = n div 2 ^ e;
          r = n mod 2 ^ e
      in (if 2 ^ e < 2 * r \<or> (2 ^ e = 2 * r \<and> odd q) then q + 1 else q) * 2 ^ e)"

definition to_double :: "int \<Rightarrow> jsnum" where
  "to_double i =
     (let m = round_to_53 \<bar>i\<bar>
      in if 1024 < bit_length m then (if i < 0 then NegInfinity else Infinity)
         else Num (if i < 0 then - m else m))"

subsection \<open>The table row\<close>

text \<open>
  One row of table \<^verbatim>\<open>prompts\<close> (\<^verbatim>\<open>supabase_schema.sql\<close>): \<^verbatim>\<open>id\<close> is the
  primary key, every other column is nullable. \<^verbatim>\<open>created_at\<close> is a point in time,
  represented by an integer.
\<close>

record prompt =
  prompt_id :: int
  title :: "string option"
  content :: "string option"
  category :: "string option"
  tags :: "string list option"
  created_at :: "int option"

subsection \<open>Requests built with the query builder\<close>

datatype colval = Text string | Integer int

datatype filter =
    Or string
  | Eq string colval
  | Contains string "string list"
  | NotIsNull string

record dbQuery =
  from_table :: string
  columns :: string
  count_exact :: bool
  head_only :: bool
  order_by :: "(string \<times> bool) option"
  filters :: "filter list"
  window :: "(jsnum \<times> jsnum) option"

text \<open>One function per builder method the code calls; each returns the extended request.\<close>

definition sb_from :: "string \<Rightarrow> dbQuery" where
  "sb_from t = \<lparr>from_table = t, columns = ''*'', count_exact = False, head_only = False,
                order_by = None, filters = [], window = None\<rparr>"

definition sb_select :: "string \<Rightarrow> dbQuery \<Rightarrow> dbQuery" where
  "sb_select cols q = q\<lparr>columns := cols\<rparr>"

definition sb_select_count :: "string \<Rightarrow> dbQuery \<Rightarrow> dbQuery" where
  \<comment> \<open>\<^verbatim>\<open>.select(cols, { count: 'exact', head: true })\<close>\<close>
  "sb_select_count cols q = q\<lparr>columns := cols, count_exact := True, head_only := True\<rparr>"

definition sb_order :: "string \<Rightarrow> bool \<Rightarrow> dbQuery \<Rightarrow> dbQuery" where
  "sb_order col ascending q = q\<lparr>order_by := Some (col, ascending)\<rparr>"

definition sb_filter :: "filter \<Rightarrow> dbQuery \<Rightarrow> dbQuery" where
  "sb_filter f q = q\<lparr>filters := filters q @ [f]\<rparr>"

definition sb_or :: "string \<Rightarrow> dbQuery \<Rightarrow> dbQuery" where
  "sb_or s = sb_filter (Or s)"

definition sb_eq :: "string \<Rightarrow> colval \<Rightarrow> dbQuery \<Rightarrow> dbQuery" where
  "sb_eq col v = sb_filter (Eq col v)"

definition sb_contains :: "string \<Rightarrow> string list \<Rightarrow> dbQuery \<Rightarrow> dbQuery" where
  "sb_contains col vs = sb_filter (Contains col vs)"

definition sb_not_is_null :: "string \<Rightarrow> dbQuery \<Rightarrow> dbQuery" where
  \<comment> \<open>\<^verbatim>\<open>.not(col, 'is', null)\<close>\<close>
  "sb_not_is_null col = sb_filter (NotIsNull col)"

definition sb_range :: "jsnum \<Rightarrow> jsnum \<Rightarrow> dbQuery \<Rightarrow> dbQuery" where
  "sb_range a b q = q\<lparr>window := Some (a, b)\<rparr>"

subsection \<open>Replies\<close>

text \<open>
  Awaiting a request either rejects (an exception reaches the \<^verbatim>\<open>catch\<close>) or resolves
  to an object with \<^verbatim>\<open>data\<close>, \<^verbatim>\<open>error\<close> and \<^verbatim>\<open>count\<close>, each possibly null.
\<close>

record 'd reply =
  data :: "'d option"
  error :: "string option"
  count :: "int option"

datatype 'd outcome = Rejected | Resolved "'d reply"

subsection \<open>searchPrompts\<close>

text \<open>
  The argument object. A field that is \<open>None\<close> is unset, and the default of the
  parameter list applies: \<^verbatim>\<open>query = ''\<close>, \<^verbatim>\<open>category = null\<close>, \<^verbatim>\<open>tags = []\<close>,
  \<^verbatim>\<open>limit = 50\<close>, \<^verbatim>\<open>offset = 0\<close>.
\<close>

record search_params =
  sp_query :: "string option"
  sp_category :: "string option"
  sp_tags :: "string list option"
  sp_limit :: "jsnum option"
  sp_offset :: "jsnum option"

definition or_filter_string :: "string \<Rightarrow> string" where
  \<comment> \<open>the template literal \<^verbatim>\<open>content.fts.${q},title.ilike.%${q}%\<close>\<close>
  "or_filter_string q = ''content.fts.'' @ q @ '',title.ilike.%'' @ q @ ''%''"

definition query_of :: "search_params \<Rightarrow> string" where
  "query_of p = (case sp_query p of None \<Rightarrow> [] | Some s \<Rightarrow> s)"

definition tags_of :: "search_params \<Rightarrow> string list" where
  "tags_of p = (case sp_tags p of None \<Rightarrow> [] | Some ts \<Rightarrow> ts)"

definition limit_of :: "search_params \<Rightarrow> jsnum" where
  "limit_of p = (case sp_limit p of None \<Rightarrow> Num 50 | Some n \<Rightarrow> n)"

definition offset_of :: "search_params \<Rightarrow> jsnum" where
  "offset_of p = (case sp_offset p of None \<Rightarrow> Num 0 | Some n \<Rightarrow> n)"

definition searchPrompts_query :: "search_params \<Rightarrow> dbQuery" where
  "searchPrompts_query p =
     (let q0 = sb_order ''created_at'' False (sb_select ''*'' (sb_from ''prompts''));
          q1 = (if query_of p \<noteq> [] \<and> trim (query_of p) \<noteq> []
                then sb_or (or_filter_string (trim (query_of p))) q0 else q0);
          q2 = (case sp_category p of
                  None \<Rightarrow> q1
                | Some c \<Rightarrow> if c \<noteq> [] \<and> trim c \<noteq> []
                            then sb_eq ''category'' (Text (trim c)) q1 else q1);
          q3 = (if tags_of p \<noteq> [] then sb_contains ''tags'' (tags_of p) q2 else q2)
      in sb_range (offset_of p) (js_sub (js_add (offset_of p) (limit_of p)) (Num 1)) q3)"

definition searchPrompts ::
  "(dbQuery \<Rightarrow> prompt list outcome) \<Rightarrow> search_params \<Rightarrow> prompt list" where
  "searchPrompts db p =
     (case db (searchPrompts_query p) of
        Rejected \<Rightarrow> []
      | Resolved r \<Rightarrow>
          if error r \<noteq> None then []
          else (case data r of None \<Rightarrow> [] | Some rows \<Rightarrow> rows))"

subsection \<open>getPromptById\<close>

definition getPromptById_query :: "int \<Rightarrow> dbQuery" where
  "getPromptById_query i = sb_eq ''id'' (Integer i) (sb_select ''*'' (sb_from ''prompts''))"

text \<open>
  \<^verbatim>\<open>.single()\<close> makes the reply carry one row object instead of an array; the round
  trip of such a request is a second function, \<open>db1\<close>.
\<close>

definition getPromptById :: "(dbQuery \<Rightarrow> prompt outcome) \<Rightarrow> int \<Rightarrow> prompt option" where
  "getPromptById db1 i =
     (case db1 (getPromptById_query i) of
        Rejected \<Rightarrow> None
      | Resolved r \<Rightarrow> if error r \<noteq> None then None else data r)"

subsection \<open>getCategories, getTags, getPromptCount\<close>

text \<open>
  \<^verbatim>\<open>[...new Set(xs)]\<close> keeps the first occurrence of every value, in order.
\<close>

fun js_unique_from :: "'a list \<Rightarrow> 'a list \<Rightarrow> 'a list" where
  "js_unique_from seen [] = []"
| "js_unique_from seen (x # xs) =
     (if x \<in> set seen then js_unique_from seen xs else x # js_unique_from (x # seen) xs)"

definition js_unique :: "'a list \<Rightarrow> 'a list" where
  "js_unique xs = js_unique_from [] xs"

text \<open>
  \<^verbatim>\<open>Array.prototype.sort\<close> without a comparator is a stable sort by the string
  conversion of the elements, strings compared by code units; \<^verbatim>\<open>null\<close> converts
  to the text \<^verbatim>\<open>null\<close>.
\<close>

definition js_toString :: "string option \<Rightarrow> string" where
  "js_toString v = (case v of None \<Rightarrow> ''null'' | Some s \<Rightarrow> s)"

definition js_sort :: "string option list \<Rightarrow> string option list" where
  "js_sort xs = sort_key js_toString xs"

definition getCategories_query :: dbQuery where
  "getCategories_query = sb_not_is_null ''category'' (sb_select ''category'' (sb_from ''prompts''))"

definition getCategories :: "(dbQuery \<Rightarrow> prompt list outcome) \<Rightarrow> string option list" where
  "getCategories db =
     (case db getCategories_query of
        Rejected \<Rightarrow> []
      | Resolved r \<Rightarrow>
          if error r \<noteq> None then []
          else (case data r of
                  None \<Rightarrow> []
                | Some rows \<Rightarrow> js_sort (js_unique (map category rows))))"

definition getTags_query :: dbQuery where
  "getTags_query = sb_not_is_null ''tags'' (sb_select ''tags'' (sb_from ''prompts''))"

definition getTags :: "(dbQuery \<Rightarrow> prompt list outcome) \<Rightarrow> string list" where
  "getTags db =
     (case db getTags_query of
        Rejected \<Rightarrow> []
      | Resolved r \<Rightarrow>
          if error r \<noteq> None then []
          else (case data r of
                  None \<Rightarrow> []
                | Some rows \<Rightarrow>
                    sort (js_unique
                      (concat (map (\<lambda>item. case tags item of None \<Rightarrow> [] | Some ts \<Rightarrow> ts) rows)))))"

definition getPromptCount_query :: dbQuery where
  "getPromptCount_query = sb_select_count ''*'' (sb_from ''prompts'')"

definition getPromptCount :: "(dbQuery \<Rightarrow> prompt list outcome) \<Rightarrow> int" where
  "getPromptCount db =
     (case db getPromptCount_query of
        Rejected \<Rightarrow> 0
      | Resolved r \<Rightarrow>
          if error r \<noteq> None then 0
          else (case count r of None \<Rightarrow> 0 | Some n \<Rightarrow> n))"

section \<open>The Data Store\<close>

text \<open>
  The Data Store (PostgreSQL behind PostgREST) is not part of the repository. What follows
  is a reference model of the documented behaviour of the operators the code uses, over
  a table given as the list of its rows. Four things are left open as parameters of
  type \<open>engine\<close>, and every statement with a variable engine holds for all of them:
  \<^item> \<open>fts_query\<close>: the full-text matcher. Given the query text it either rejects it
    (\<open>None\<close>: the query text is not a well-formed text-search query, the request fails)
    or yields the predicate on the column text;
  \<^item> \<open>fold_case\<close>: the case folding of the store's locale, applied by \<^verbatim>\<open>ILIKE\<close> to
    pattern and text;
  \<^item> \<open>filter_extension\<close>: the meaning of a filter outside the fragment modelled here
    (a raw \<^verbatim>\<open>or\<close> string that uses quoting, parentheses or further operators, an
    array literal with quotes or braces, a comparison on another column), again
    \<open>None\<close> when the store rejects it;
  \<^item> \<open>other_request\<close>: the reply to a request on another table, with another order,
    or with a window that is not a pair of integers \<open>from \<ge> 0\<close>, \<open>to \<ge> from - 1\<close>.
  The model assumes that the store imposes no row cap of its own, and it resolves ties
  of the sort key by table order.
\<close>

record engine =
  fts_query :: "string \<Rightarrow> (string \<Rightarrow> bool) option"
  fold_case :: "string \<Rightarrow> string"
  filter_extension :: "filter \<Rightarrow> (prompt \<Rightarrow> bool) option"
  other_request :: "dbQuery \<Rightarrow> prompt list \<Rightarrow> prompt list reply"

text \<open>
  Reading a piece of request text has three outcomes: the text is outside the
  modelled fragment, the store rejects it, or it reads as a value.
\<close>

datatype 'a reading = Unmodelled | Malformed | Reads 'a

fun all_read :: "'a reading list \<Rightarrow> 'a list reading" where
  "all_read [] = Reads []"
| "all_read (x # xs) =
     (case x of
        Unmodelled \<Rightarrow> Unmodelled
      | Malformed \<Rightarrow> (case all_read xs of Unmodelled \<Rightarrow> Unmodelled | _ \<Rightarrow> Malformed)
      | Reads v \<Rightarrow> (case all_read xs of
                     Unmodelled \<Rightarrow> Unmodelled
                   | Malformed \<Rightarrow> Malformed
                   | Reads vs \<Rightarrow> Reads (v # vs)))"

subsection \<open>Pattern matching\<close>

text \<open>
  SQL \<^verbatim>\<open>LIKE\<close>: \<^verbatim>\<open>%\<close> matches any sequence of characters, \<^verbatim>\<open>_\<close> any single
  character, every other character itself. (Patterns with the escape character
  backslash are outside the modelled fragment.) \<^verbatim>\<open>ILIKE\<close> is \<^verbatim>\<open>LIKE\<close> on the
  case-folded pattern and text.
\<close>

fun like :: "string \<Rightarrow> string \<Rightarrow> bool" where
  "like [] s = (s = [])"
| "like (p # ps) [] = (p = CHR ''%'' \<and> like ps [])"
| "like (p # ps) (c # cs) =
     (if p = CHR ''%'' then like ps (c # cs) \<or> like (p # ps) cs
      else (p = CHR ''_'' \<or> p = c) \<and> like ps cs)"

definition ilike :: "(string \<Rightarrow> string) \<Rightarrow> string \<Rightarrow> string \<Rightarrow> bool" where
  "ilike fc p s = like (fc p) (fc s)"

definition star_to_percent :: "string \<Rightarrow> string" where
  \<comment> \<open>PostgREST reads \<^verbatim>\<open>*\<close> in a pattern as \<^verbatim>\<open>%\<close>\<close>
  "star_to_percent v = map (\<lambda>c. if c = CHR ''*'' then CHR ''%'' else c) v"

text \<open>
  Lower case of a character with code below 256: the letters A to Z and the letters of
  the Latin-1 block (codes 192 to 222 without the multiplication sign 215) move up by
  32. This is the folding of the sample engines and of the substring test below.
\<close>

definition lower :: "char \<Rightarrow> char" where
  "lower c =
     (let n = of_char c :: nat
      in if (65 \<le> n \<and> n \<le> 90) \<or> (192 \<le> n \<and> n \<le> 222 \<and> n \<noteq> 215) then char_of (n + 32)
         else c)"

subsection \<open>The raw \<^verbatim>\<open>or\<close> filter\<close>

text \<open>
  \<^verbatim>\<open>.or(s)\<close> hands \<open>s\<close> to PostgREST as it is: conditions separated by commas, each
  \<^verbatim>\<open>column.operator.value\<close>. A piece with a parenthesis, a double quote or a
  backslash is outside the modelled fragment, and so is a piece on another column or
  with another operator than \<^verbatim>\<open>fts\<close> and \<^verbatim>\<open>ilike\<close>; a piece of plain text
  with fewer than two dots is no condition, and PostgREST rejects the request.
\<close>

fun split_on :: "char \<Rightarrow> string \<Rightarrow> string list" where
  "split_on sep [] = [[]]"
| "split_on sep (c # cs) =
     (if c = sep then [] # split_on sep cs
      else (case split_on sep cs of [] \<Rightarrow> [[c]] | w # ws \<Rightarrow> (c # w) # ws))"

definition text_column :: "string \<Rightarrow> (prompt \<Rightarrow> string option) option" where
  "text_column col =
     (if col = ''title'' then Some title
      else if col = ''content'' then Some content
      else if col = ''category'' then Some category
      else None)"

datatype text_op = Fts | ILike

definition text_operator :: "string \<Rightarrow> text_op option" where
  "text_operator s = (if s = ''fts'' then Some Fts else if s = ''ilike'' then Some ILike else None)"

definition unquoted_value :: "string \<Rightarrow> bool" where
  "unquoted_value v = list_all (\<lambda>c. c \<notin> set [CHR ''('', CHR '')'', CHR 0x22, CHR 0x5C]) v"

definition parse_condition ::
  "string \<Rightarrow> ((prompt \<Rightarrow> string option) \<times> text_op \<times> string) reading" where
  "parse_condition s =
     (if \<not> unquoted_value s then Unmodelled
      else
       (let col = takeWhile (\<lambda>c. c \<noteq> CHR ''.'') s in
        case drop (length col) s of
          [] \<Rightarrow> Malformed
        | _ # r \<Rightarrow>
           (let opr = takeWhile (\<lambda>c. c \<noteq> CHR ''.'') r in
            case drop (length opr) r of
              [] \<Rightarrow> Malformed
            | _ # v \<Rightarrow>
               (case (text_column col, text_operator opr) of
                  (Some get, Some opn) \<Rightarrow> Reads (get, opn, v)
                | _ \<Rightarrow> Unmodelled))))"

definition or_conditions ::
  "string \<Rightarrow> ((prompt \<Rightarrow> string option) \<times> text_op \<times> string) list reading" where
  "or_conditions s = all_read (map parse_condition (split_on CHR '','' s))"

text \<open>
  Operator \<^verbatim>\<open>fts\<close> reads its value with \<^verbatim>\<open>to_tsquery\<close>, whose operands must be
  joined by operators: a text of two or more words of letters and digits separated
  only by blanks is a syntax error, and the request fails. For every other text the
  engine decides.
\<close>

definition is_alnum :: "char \<Rightarrow> bool" where
  "is_alnum c =
     ((CHR ''0'' \<le> c \<and> c \<le> CHR ''9'') \<or> (CHR ''A'' \<le> c \<and> c \<le> CHR ''Z'')
      \<or> (CHR ''a'' \<le> c \<and> c \<le> CHR ''z''))"

definition blank_separated_words :: "string \<Rightarrow> bool" where
  "blank_separated_words v =
     (list_all (\<lambda>c. is_alnum c \<or> c = CHR '' '') v
      \<and> 2 \<le> length (filter (\<lambda>w. w \<noteq> []) (split_on CHR '' '' v)))"

fun condition_sem ::
  "engine \<Rightarrow> (prompt \<Rightarrow> string option) \<times> text_op \<times> string \<Rightarrow> (prompt \<Rightarrow> bool) option" where
  "condition_sem eng (get, Fts, v) =
     (if blank_separated_words v then None
      else (case fts_query eng v of
              None \<Rightarrow> None
            | Some m \<Rightarrow> Some (\<lambda>r. case get r of None \<Rightarrow> False | Some t \<Rightarrow> m t)))"
| "condition_sem eng (get, ILike, v) =
     Some (\<lambda>r. case get r of
                 None \<Rightarrow> False
               | Some t \<Rightarrow> ilike (fold_case eng) (star_to_percent v) t)"

text \<open>A row passes the \<^verbatim>\<open>or\<close> filter when it passes one of the conditions.\<close>

fun any_condition ::
  "engine \<Rightarrow> ((prompt \<Rightarrow> string option) \<times> text_op \<times> string) list \<Rightarrow> (prompt \<Rightarrow> bool) option" where
  "any_condition eng [] = Some (\<lambda>r. False)"
| "any_condition eng (c # cs) =
     (case condition_sem eng c of
        None \<Rightarrow> None
      | Some m \<Rightarrow>
         (case any_condition eng cs of
            None \<Rightarrow> None
          | Some ms \<Rightarrow> Some (\<lambda>r. m r \<or> ms r)))"

subsection \<open>The array literal of \<^verbatim>\<open>contains\<close>\<close>

text \<open>
  \<^verbatim>\<open>.contains(col, ts)\<close> with an array \<open>ts\<close> writes the request parameter
  \<^verbatim>\<open>cs.{...}\<close>, the elements joined with commas and not quoted, and PostgreSQL reads
  the text between the braces as an array literal: items are separated by commas,
  blanks around an item are dropped, an empty item is malformed, and the unquoted word
  \<^verbatim>\<open>null\<close> in any letter case is the null element. A literal with a brace, a double
  quote or a backslash inside, or with nothing but blanks inside, is outside the
  modelled fragment. \<^verbatim>\<open>a @> b\<close> holds when every element of \<open>b\<close> equals an element
  of \<open>a\<close>; a null element equals nothing.
\<close>

fun join_commas :: "string list \<Rightarrow> string" where
  "join_commas [] = []"
| "join_commas [w] = w"
| "join_commas (w # ws) = w @ CHR '','' # join_commas ws"

definition array_literal :: "string list \<Rightarrow> string" where
  "array_literal ts = CHR ''{'' # join_commas ts @ ''}''"

definition pg_blank :: "char \<Rightarrow> bool" where
  "pg_blank c = (c \<in> set [CHR 0x20, CHR 0x09, CHR 0x0A, CHR 0x0D, CHR 0x0B, CHR 0x0C])"

definition pg_strip :: "string \<Rightarrow> string" where
  "pg_strip s = rev (dropWhile pg_blank (rev (dropWhile pg_blank s)))"

definition read_array_items :: "string \<Rightarrow> string option list reading" where
  "read_array_items inner =
     (if list_ex (\<lambda>c. c \<in> set [CHR ''{'', CHR ''}'', CHR 0x22, CHR 0x5C]) inner then Unmodelled
      else if inner = [] then Reads []
      else
       (let items = map pg_strip (split_on CHR '','' inner) in
        if list_ex (\<lambda>w. w = []) items
        then (if length items = 1 then Unmodelled else Malformed)
        else Reads (map (\<lambda>w. if map lower w = ''null'' then None else Some w) items)))"

definition read_array_literal :: "string \<Rightarrow> string option list reading" where
  "read_array_literal s =
     (case s of
        [] \<Rightarrow> Malformed
      | c # rest \<Rightarrow>
          if c = CHR ''{'' \<and> rest \<noteq> [] \<and> last rest = CHR ''}''
          then read_array_items (butlast rest)
          else Malformed)"

definition array_contains :: "string list \<Rightarrow> string option list \<Rightarrow> bool" where
  "array_contains have items =
     list_all (\<lambda>i. case i of None \<Rightarrow> False | Some t \<Rightarrow> t \<in> set have) items"

subsection \<open>Filters, order, window\<close>

text \<open>A null column never satisfies a comparison.\<close>

fun filter_sem :: "engine \<Rightarrow> filter \<Rightarrow> (prompt \<Rightarrow> bool) option" where
  "filter_sem eng (Or s) =
     (case or_conditions s of
        Unmodelled \<Rightarrow> filter_extension eng (Or s)
      | Malformed \<Rightarrow> None
      | Reads cs \<Rightarrow> any_condition eng cs)"
| "filter_sem eng (Eq col (Integer i)) =
     (if col = ''id'' then Some (\<lambda>r. prompt_id r = i)
      else filter_extension eng (Eq col (Integer i)))"
| "filter_sem eng (Eq col (Text s)) =
     (case text_column col of
        Some get \<Rightarrow> Some (\<lambda>r. get r = Some s)
      | None \<Rightarrow> filter_extension eng (Eq col (Text s)))"
| "filter_sem eng (Contains col ts) =
     (if col = ''tags''
      then (case read_array_literal (array_literal ts) of
              Unmodelled \<Rightarrow> filter_extension eng (Contains col ts)
            | Malformed \<Rightarrow> None
            | Reads items \<Rightarrow>
                Some (\<lambda>r. case tags r of None \<Rightarrow> False | Some have \<Rightarrow> array_contains have items))
      else filter_extension eng (Contains col ts))"
| "filter_sem eng (NotIsNull col) =
     (if col = ''tags'' then Some (\<lambda>r. tags r \<noteq> None)
      else (case text_column col of
              Some get \<Rightarrow> Some (\<lambda>r. get r \<noteq> None)
            | None \<Rightarrow> filter_extension eng (NotIsNull col)))"

text \<open>The filters of a request are conjoined; a rejected filter fails the request.\<close>

fun where_sem :: "engine \<Rightarrow> filter list \<Rightarrow> (prompt \<Rightarrow> bool) option" where
  "where_sem eng [] = Some (\<lambda>r. True)"
| "where_sem eng (f # fs) =
     (case filter_sem eng f of
        None \<Rightarrow> None
      | Some m \<Rightarrow>
         (case where_sem eng fs of
            None \<Rightarrow> None
          | Some ms \<Rightarrow> Some (\<lambda>r. m r \<and> ms r)))"

text \<open>
  \<^verbatim>\<open>ORDER BY created_at DESC\<close>: latest first, rows without a time stamp before all
  others (PostgreSQL's default for a descending order).
\<close>

definition desc_key :: "prompt \<Rightarrow> int option" where
  "desc_key r = map_option uminus (created_at r)"

definition order_desc :: "prompt list \<Rightarrow> prompt list" where
  "order_desc rows = sort_key desc_key rows"

definition modelled_order :: "(string \<times> bool) option \<Rightarrow> bool" where
  "modelled_order ob = (ob = None \<or> ob = Some (''created_at'', False))"

definition apply_order :: "(string \<times> bool) option \<Rightarrow> prompt list \<Rightarrow> prompt list" where
  "apply_order ob rows = (case ob of None \<Rightarrow> rows | Some _ \<Rightarrow> order_desc rows)"

fun modelled_window :: "(jsnum \<times> jsnum) option \<Rightarrow> bool" where
  "modelled_window None = True"
| "modelled_window (Some (Num a, Num b)) = (0 \<le> a \<and> a - 1 \<le> b)"
| "modelled_window (Some _) = False"

fun apply_window :: "(jsnum \<times> jsnum) option \<Rightarrow> prompt list \<Rightarrow> prompt list" where
  "apply_window (Some (Num a, Num b)) rows = take (nat (b - a + 1)) (drop (nat a) rows)"
| "apply_window _ rows = rows"

definition data_store :: "engine \<Rightarrow> prompt list \<Rightarrow> dbQuery \<Rightarrow> prompt list outcome" where
  "data_store eng tbl q =
     (if from_table q = ''prompts'' \<and> modelled_order (order_by q) \<and> modelled_window (window q)
      then (case where_sem eng (filters q) of
              None \<Rightarrow> Resolved \<lparr>data = None, error = Some ''request rejected'', count = None\<rparr>
            | Some m \<Rightarrow>
               (let rows = filter m tbl
                in Resolved
                    \<lparr>data = (if head_only q then None
                             else Some (apply_window (window q) (apply_order (order_by q) rows))),
                     error = None,
                     count = (if count_exact q then Some (int (length rows)) else None)\<rparr>))
      else Resolved (other_request eng q tbl))"

text \<open>
  \<^verbatim>\<open>.single()\<close>: the reply carries the row when the request selects exactly one row,
  and an error otherwise.
\<close>

definition data_store_single :: "engine \<Rightarrow> prompt list \<Rightarrow> dbQuery \<Rightarrow> prompt outcome" where
  "data_store_single eng tbl q =
     (case data_store eng tbl q of
        Rejected \<Rightarrow> Rejected
      | Resolved r \<Rightarrow>
         (if error r \<noteq> None then Resolved \<lparr>data = None, error = error r, count = count r\<rparr>
          else (case data r of
                  Some [row] \<Rightarrow> Resolved \<lparr>data = Some row, error = None, count = count r\<rparr>
                | _ \<Rightarrow> Resolved \<lparr>data = None, error = Some ''PGRST116'', count = count r\<rparr>)))"

section \<open>The endpoints\<close>

text \<open>
  A route handler awaits the functions above inside \<^verbatim>\<open>try\<close>. An awaited call either
  throws or returns a value; the handlers are given as functions of that outcome, and
  the endpoint itself calls them with the functions of \<^verbatim>\<open>queries.js\<close>, which always
  return.
\<close>

datatype 'a settled = Throws | Fulfilled 'a

record 'b response =
  status :: nat
  body :: 'b

subsection \<open>GET /api/prompts\<close>

text \<open>
  \<^verbatim>\<open>parseInt(s, 10)\<close>: leading white space is skipped, an optional sign is read, then
  the longest run of decimal digits; without a digit the result is NaN, otherwise
  the double nearest to the signed integer read.
\<close>

definition is_digit :: "char \<Rightarrow> bool" where
  "is_digit c = (CHR ''0'' \<le> c \<and> c \<le> CHR ''9'')"

definition digits_value :: "string \<Rightarrow> int" where
  "digits_value ds = foldl (\<lambda>n c. 10 * n + (int (of_char c) - 48)) 0 ds"

definition parseInt10 :: "string \<Rightarrow> jsnum" where
  "parseInt10 s =
     (let t = dropWhile js_whitespace s;
          negative = (case t of [] \<Rightarrow> False | c # _ \<Rightarrow> c = CHR ''-'');
          u = (case t of [] \<Rightarrow> [] | c # cs \<Rightarrow> if c = CHR ''+'' \<or> c = CHR ''-'' then cs else t);
          ds = takeWhile is_digit u
      in if ds = [] then NaN
         else to_double (if negative then - digits_value ds else digits_value ds))"

definition or_default :: "string option \<Rightarrow> string \<Rightarrow> string" where
  \<comment> \<open>\<^verbatim>\<open>searchParams.get(k) || d\<close>: null and the empty string are falsy\<close>
  "or_default v d = (case v of None \<Rightarrow> d | Some s \<Rightarrow> if s = [] then d else s)"

definition parse_tags :: "string option \<Rightarrow> string list" where
  \<comment> \<open>\<^verbatim>\<open>tagsParam ? tagsParam.split(',').map(tag => tag.trim()).filter(Boolean) : []\<close>\<close>
  "parse_tags tagsParam =
     (case tagsParam of
        None \<Rightarrow> []
      | Some s \<Rightarrow> if s = [] then []
                  else filter (\<lambda>t. t \<noteq> []) (map trim (split_on CHR '','' s)))"

definition GET_prompts_params :: "(string \<Rightarrow> string option) \<Rightarrow> search_params" where
  "GET_prompts_params get =
     \<lparr>sp_query = Some (or_default (get ''query'') []),
      sp_category = (case get ''category'' of None \<Rightarrow> None
                     | Some c \<Rightarrow> if c = [] then None else Some c),
      sp_tags = Some (parse_tags (get ''tags'')),
      sp_limit = Some (parseInt10 (or_default (get ''limit'') ''50'')),
      sp_offset = Some (parseInt10 (or_default (get ''offset'') ''0''))\<rparr>"

datatype prompts_body =
    PromptsBody "prompt list" nat search_params
      \<comment> \<open>\<^verbatim>\<open>{ prompts, count, query: { query, category, tags, limit, offset } }\<close>\<close>
  | PromptsError string "prompt list"
      \<comment> \<open>\<^verbatim>\<open>{ error, prompts }\<close>\<close>

definition GET_prompts_with ::
  "(search_params \<Rightarrow> prompt list settled) \<Rightarrow> (string \<Rightarrow> string option) \<Rightarrow> prompts_body response" where
  "GET_prompts_with search get =
     (let params = GET_prompts_params get in
      case search params of
        Throws \<Rightarrow> \<lparr>status = 500, body = PromptsError ''Failed to fetch prompts'' []\<rparr>
      | Fulfilled found \<Rightarrow>
          \<lparr>status = 200, body = PromptsBody found (length found) params\<rparr>)"

definition GET_prompts ::
  "(dbQuery \<Rightarrow> prompt list outcome) \<Rightarrow> (string \<Rightarrow> string option) \<Rightarrow> prompts_body response" where
  "GET_prompts db get = GET_prompts_with (\<lambda>p. Fulfilled (searchPrompts db p)) get"

subsection \<open>GET /api/stats\<close>

datatype stats_body =
    StatsBody int nat nat "string option list" "string list"
      \<comment> \<open>\<^verbatim>\<open>{ total, categories, tags, categoriesList, tagsList }\<close>\<close>
  | StatsError string int nat nat
      \<comment> \<open>\<^verbatim>\<open>{ error, total, categories, tags }\<close>\<close>

fun GET_stats_with ::
  "int settled \<Rightarrow> string option list settled \<Rightarrow> string list settled \<Rightarrow> stats_body response" where
  "GET_stats_with (Fulfilled totalCount) (Fulfilled categoriesList) (Fulfilled tagsList) =
     \<lparr>status = 200,
      body = StatsBody totalCount (length categoriesList) (length tagsList)
               categoriesList tagsList\<rparr>"
| "GET_stats_with _ _ _ =
     \<lparr>status = 500, body = StatsError ''Failed to fetch statistics'' 0 0 0\<rparr>"

definition GET_stats :: "(dbQuery \<Rightarrow> prompt list outcome) \<Rightarrow> stats_body response" where
  "GET_stats db =
     GET_stats_with (Fulfilled (getPromptCount db)) (Fulfilled (getCategories db))
       (Fulfilled (getTags db))"

section \<open>Notions used in the statements\<close>

definition failed :: "'d outcome \<Rightarrow> bool" where
  "failed out = (case out of Rejected \<Rightarrow> True | Resolved r \<Rightarrow> error r \<noteq> None)"

text \<open>The filters that the three optional criteria contribute to the request.\<close>

definition text_filters :: "search_params \<Rightarrow> filter list" where
  "text_filters p =
     (if trim (query_of p) \<noteq> [] then [Or (or_filter_string (trim (query_of p)))] else [])"

definition category_filters :: "search_params \<Rightarrow> filter list" where
  "category_filters p =
     (case sp_category p of
        None \<Rightarrow> []
      | Some c \<Rightarrow> if trim c \<noteq> [] then [Eq ''category'' (Text (trim c))] else [])"

definition tag_filters :: "search_params \<Rightarrow> filter list" where
  "tag_filters p = (if tags_of p \<noteq> [] then [Contains ''tags'' (tags_of p)] else [])"

text \<open>
  The window of \<open>lim\<close> rows from zero-based position \<open>off\<close>, and the criteria with
  the window widened to the whole table.
\<close>

definition page :: "int \<Rightarrow> int \<Rightarrow> 'a list \<Rightarrow> 'a list" where
  "page off lim rows = take (nat lim) (drop (nat off) rows)"

definition unpaged :: "prompt list \<Rightarrow> search_params \<Rightarrow> search_params" where
  "unpaged tbl p = p\<lparr>sp_limit := Some (Num (int (length tbl))), sp_offset := Some (Num 0)\<rparr>"

definition tag_set :: "prompt \<Rightarrow> string set" where
  "tag_set r = (case tags r of None \<Rightarrow> {} | Some ts \<Rightarrow> set ts)"

text \<open>\<open>not_older a b\<close>: time stamp \<open>a\<close> may stand before \<open>b\<close> in descending order.\<close>

definition not_older :: "int option \<Rightarrow> int option \<Rightarrow> bool" where
  "not_older a b =
     (case a of None \<Rightarrow> True | Some x \<Rightarrow> (case b of None \<Rightarrow> False | Some y \<Rightarrow> y \<le> x))"

text \<open>Substring test, and the same without regard to letter case.\<close>

fun contains_sub :: "string \<Rightarrow> string \<Rightarrow> bool" where
  "contains_sub q [] = (q = [])"
| "contains_sub q (c # cs) = (take (length q) (c # cs) = q \<or> contains_sub q cs)"

definition contains_ci :: "string \<Rightarrow> string \<Rightarrow> bool" where
  "contains_ci q t = contains_sub (map lower q) (map lower t)"

definition title_contains :: "string \<Rightarrow> prompt \<Rightarrow> bool" where
  "title_contains q r = (case title r of None \<Rightarrow> False | Some t \<Rightarrow> contains_ci q t)"

definition content_matches :: "(string \<Rightarrow> bool) \<Rightarrow> prompt \<Rightarrow> bool" where
  "content_matches m r = (case content r of None \<Rightarrow> False | Some t \<Rightarrow> m t)"

text \<open>
  A query text without the characters that belong to the syntax of the \<^verbatim>\<open>or\<close>
  filter string: comma, parentheses, double quote, backslash.
\<close>

definition no_structure :: "string \<Rightarrow> bool" where
  "no_structure q =
     list_all (\<lambda>c. c \<notin> set [CHR '','', CHR ''('', CHR '')'', CHR 0x22, CHR 0x5C]) q"

subsection \<open>The scenarios of the specification\<close>

text \<open>
  Concrete data for the examples: an engine whose full-text matcher is a stand-in
  (substring match without regard to case), the two records of the end-to-end scenario,
  five dated records for the pagination scenario, records that carry only tags,
  stores that fail or find nothing, query parameters (none, odd ones, all given, all
  present but empty), criteria with a negative limit, and records whose titles are
  \<^verbatim>\<open>axb\<close> and \<^verbatim>\<open>a,b\<close>.
\<close>

definition sample_engine :: engine where
  "sample_engine =
     \<lparr>fts_query = (\<lambda>q. Some (contains_ci q)),
      fold_case = map lower,
      filter_extension = (\<lambda>f. None),
      other_request = (\<lambda>q rows. \<lparr>data = None, error = Some ''not supported'', count = None\<rparr>)\<rparr>"

definition email_prompt :: prompt where
  "email_prompt =
     \<lparr>prompt_id = 1, title = Some ''Professional Email'',
      content = Some ''Write a professional email...'', category = Some ''Writing'',
      tags = Some [''email'', ''business''], created_at = Some 10\<rparr>"

definition review_prompt :: prompt where
  "review_prompt =
     \<lparr>prompt_id = 2, title = Some ''Code Review'', content = Some ''Review the code...'',
      category = Some ''Development'', tags = Some [''code''], created_at = Some 20\<rparr>"

definition sample_table :: "prompt list" where
  "sample_table = [email_prompt, review_prompt]"

definition criteria :: "string option \<Rightarrow> string option \<Rightarrow> string list option \<Rightarrow> search_params" where
  "criteria q c ts =
     \<lparr>sp_query = q, sp_category = c, sp_tags = ts, sp_limit = None, sp_offset = None\<rparr>"

definition dated :: "int \<Rightarrow> int \<Rightarrow> prompt" where
  "dated i t = \<lparr>prompt_id = i, title = None, content = None, category = None, tags = None,
                created_at = Some t\<rparr>"

definition five_prompts :: "prompt list" where
  "five_prompts = [dated 1 30, dated 2 10, dated 3 50, dated 4 20, dated 5 40]"

definition tagged :: "int \<Rightarrow> string list \<Rightarrow> prompt" where
  "tagged i ts = \<lparr>prompt_id = i, title = None, content = None, category = None,
                  tags = Some ts, created_at = None\<rparr>"

definition failing_store :: "dbQuery \<Rightarrow> prompt list outcome" where
  "failing_store q = Resolved \<lparr>data = None, error = Some ''connection refused'', count = None\<rparr>"

definition empty_store :: "dbQuery \<Rightarrow> prompt list outcome" where
  "empty_store q = Resolved \<lparr>data = Some [], error = None, count = Some 0\<rparr>"

definition failing_single :: "dbQuery \<Rightarrow> prompt outcome" where
  "failing_single q = Rejected"

definition no_params :: "string \<Rightarrow> string option" where
  "no_params k = None"

definition odd_params :: "string \<Rightarrow> string option" where
  "odd_params k =
     (if k = ''limit'' then Some ''-5'' else if k = ''offset'' then Some ''abc''
      else if k = ''tags'' then Some ''a, ,b,'' else None)"

definition negative_limit :: search_params where
  "negative_limit =
     \<lparr>sp_query = None, sp_category = None, sp_tags = None, sp_limit = Some (Num (- 1)),
      sp_offset = None\<rparr>"

definition axb_prompt :: prompt where
  "axb_prompt = \<lparr>prompt_id = 3, title = Some ''axb'', content = Some ''zzz'', category = None,
                  tags = None, created_at = Some 1\<rparr>"

definition comma_prompt :: prompt where
  "comma_prompt = \<lparr>prompt_id = 4, title = Some ''a,b'', content = Some ''a,b'', category = None,
                    tags = None, created_at = Some 2\<rparr>"

definition given_params :: "string \<Rightarrow> string option" where
  "given_params k =
     (if k = ''query'' then Some ''email'' else if k = ''category'' then Some ''Writing''
      else if k = ''tags'' then Some ''email,business'' else if k = ''limit'' then Some ''1''
      else if k = ''offset'' then Some ''0'' else None)"

definition blank_params :: "string \<Rightarrow> string option" where
  "blank_params k = Some []"

definition null_tag_params :: "string \<Rightarrow> string option" where
  "null_tag_params k = (if k = ''tags'' then Some ''null'' else None)"

section \<open>Auxiliary facts\<close>

subsection \<open>The request of searchPrompts\<close>

lemma trim_Nil [simp]: "trim [] = []"
  by (simp add: trim_def)

lemma searchPrompts_query_shape:
  "searchPrompts_query p =
     \<lparr>from_table = ''prompts'', columns = ''*'', count_exact = False, head_only = False,
      order_by = Some (''created_at'', False),
      filters = text_filters p @ category_filters p @ tag_filters p,
      window = Some (offset_of p, js_sub (js_add (offset_of p) (limit_of p)) (Num 1))\<rparr>"
  by (auto simp: searchPrompts_query_def Let_def sb_from_def sb_select_def sb_order_def sb_or_def
        sb_eq_def sb_contains_def sb_filter_def sb_range_def text_filters_def category_filters_def
        tag_filters_def split: option.splits)

lemma searchPrompts_query_cong:
  "query_of p = query_of p' \<Longrightarrow> sp_category p = sp_category p' \<Longrightarrow> tags_of p = tags_of p'
   \<Longrightarrow> limit_of p = limit_of p' \<Longrightarrow> offset_of p = offset_of p'
   \<Longrightarrow> searchPrompts_query p = searchPrompts_query p'"
  by (simp add: searchPrompts_query_shape text_filters_def category_filters_def tag_filters_def)

lemma searchPrompts_cong:
  "searchPrompts_query p = searchPrompts_query p' \<Longrightarrow> searchPrompts db p = searchPrompts db p'"
  by (simp add: searchPrompts_def)

subsection \<open>Running the request on the Data Store\<close>

lemma where_sem_append:
  "where_sem eng (fs @ gs) =
     (case where_sem eng fs of
        None \<Rightarrow> None
      | Some a \<Rightarrow> (case where_sem eng gs of None \<Rightarrow> None | Some b \<Rightarrow> Some (\<lambda>r. a r \<and> b r)))"
  by (induction fs) (auto split: option.splits)

lemma searchPrompts_data_store:
  assumes "offset_of p = Num off" "limit_of p = Num lim" "0 \<le> off" "0 \<le> lim"
  shows "searchPrompts (data_store eng tbl) p =
     (case where_sem eng (filters (searchPrompts_query p)) of
        None \<Rightarrow> []
      | Some m \<Rightarrow> page off lim (order_desc (filter m tbl)))"
  using assms
  by (simp add: searchPrompts_def data_store_def searchPrompts_query_shape modelled_order_def
        apply_order_def page_def Let_def split: option.splits)

lemma desc_key_le: "desc_key a \<le> desc_key b \<longleftrightarrow> not_older (created_at a) (created_at b)"
  by (cases "created_at a"; cases "created_at b") (simp_all add: desc_key_def not_older_def)

lemma sorted_order_desc:
  "sorted_wrt (\<lambda>a b. not_older (created_at a) (created_at b)) (order_desc rows)"
proof -
  have "sorted (map desc_key (order_desc rows))"
    by (simp add: order_desc_def)
  then show ?thesis
    by (simp add: sorted_map desc_key_le)
qed

lemma filter_order_desc: "filter P (order_desc rows) = order_desc (filter P rows)"
  by (simp add: order_desc_def filter_sort)

lemma page_all: "length rows \<le> n \<Longrightarrow> page 0 (int n) rows = rows"
  by (simp add: page_def)

lemma unpaged_simps [simp]:
  "offset_of (unpaged tbl p) = Num 0"
  "limit_of (unpaged tbl p) = Num (int (length tbl))"
  "query_of (unpaged tbl p) = query_of p"
  "tags_of (unpaged tbl p) = tags_of p"
  "sp_category (unpaged tbl p) = sp_category p"
  by (simp_all add: unpaged_def offset_of_def limit_of_def query_of_def tags_of_def)

lemma filters_unpaged [simp]:
  "filters (searchPrompts_query (unpaged tbl p)) = filters (searchPrompts_query p)"
  by (simp add: searchPrompts_query_shape text_filters_def category_filters_def tag_filters_def)

lemma searchPrompts_unpaged:
  "searchPrompts (data_store eng tbl) (unpaged tbl p) =
     (case where_sem eng (filters (searchPrompts_query p)) of
        None \<Rightarrow> []
      | Some m \<Rightarrow> order_desc (filter m tbl))"
proof -
  have "page 0 (int (length tbl)) (order_desc (filter m tbl)) = order_desc (filter m tbl)" for m
    by (rule page_all) (simp add: order_desc_def)
  then show ?thesis
    by (simp add: searchPrompts_data_store [where off = 0 and lim = "int (length tbl)"]
          split: option.splits)
qed

lemma searchPrompts_paged:
  assumes "offset_of p = Num off" "limit_of p = Num lim" "0 \<le> off" "0 \<le> lim"
  shows "searchPrompts (data_store eng tbl) p
           = page off lim (searchPrompts (data_store eng tbl) (unpaged tbl p))"
  using assms
  by (simp add: searchPrompts_data_store [OF assms] searchPrompts_unpaged page_def
        split: option.splits)

subsection \<open>Patterns\<close>

lemma contains_sub_iff: "contains_sub q s \<longleftrightarrow> (\<exists>a b. s = a @ q @ b)"
proof (induction s)
  case Nil
  then show ?case by auto
next
  case (Cons c cs)
  show ?case
  proof
    assume "contains_sub q (c # cs)"
    then consider "take (length q) (c # cs) = q" | "contains_sub q cs" by auto
    then show "\<exists>a b. c # cs = a @ q @ b"
    proof cases
      case 1
      then have "c # cs = [] @ q @ drop (length q) (c # cs)"
        by (metis append_Nil append_take_drop_id)
      then show ?thesis by blast
    next
      case 2
      then obtain a b where "cs = a @ q @ b" using Cons.IH by blast
      then have "c # cs = (c # a) @ q @ b" by simp
      then show ?thesis by blast
    qed
  next
    assume "\<exists>a b. c # cs = a @ q @ b"
    then obtain a b where ab: "c # cs = a @ q @ b" by blast
    show "contains_sub q (c # cs)"
    proof (cases a)
      case Nil
      then have "take (length q) (c # cs) = q" using ab by simp
      then show ?thesis by simp
    next
      case (Cons x a')
      then have "cs = a' @ q @ b" using ab by simp
      then have "contains_sub q cs" using Cons.IH by blast
      then show ?thesis by simp
    qed
  qed
qed

lemma like_only_percent [simp]: "like [CHR ''%''] s"
  by (induction s) auto

lemma like_literal_prefix:
  "\<forall>c\<in>set q. c \<noteq> CHR ''%'' \<and> c \<noteq> CHR ''_'' \<Longrightarrow>
     like (q @ [CHR ''%'']) s \<longleftrightarrow> take (length q) s = q"
proof (induction q arbitrary: s)
  case Nil
  then show ?case by simp
next
  case (Cons x q)
  then show ?case by (cases s) auto
qed

lemma like_percent_literal_percent:
  assumes "\<forall>c\<in>set q. c \<noteq> CHR ''%'' \<and> c \<noteq> CHR ''_''"
  shows "like (CHR ''%'' # q @ [CHR ''%'']) s \<longleftrightarrow> contains_sub q s"
proof (induction s)
  case Nil
  show ?case using like_literal_prefix [OF assms, of "[]"] by auto
next
  case (Cons c cs)
  show ?case using like_literal_prefix [OF assms, of "c # cs"] Cons.IH by simp
qed

subsection \<open>Reading the filter string back\<close>

lemma split_on_no_sep: "sep \<notin> set a \<Longrightarrow> split_on sep a = [a]"
  by (induction a) auto

lemma split_on_append: "sep \<notin> set a \<Longrightarrow> split_on sep (a @ sep # b) = a # split_on sep b"
  by (induction a) auto

lemma no_structure_set:
  "no_structure q \<longleftrightarrow> (\<forall>c\<in>set q. c \<noteq> CHR '','' \<and> c \<noteq> CHR ''('' \<and> c \<noteq> CHR '')''
       \<and> c \<noteq> CHR 0x22 \<and> c \<noteq> CHR 0x5C)"
  by (auto simp: no_structure_def list_all_iff)

lemma split_or_filter_string:
  assumes "no_structure q"
  shows "split_on CHR '','' (or_filter_string q) = [''content.fts.'' @ q, ''title.ilike.%'' @ q @ ''%'']"
proof -
  have 1: "CHR '','' \<notin> set (''content.fts.'' @ q)"
    using assms by (auto simp: no_structure_set)
  have 2: "CHR '','' \<notin> set (''title.ilike.%'' @ q @ ''%'')"
    using assms by (auto simp: no_structure_set)
  have "or_filter_string q = (''content.fts.'' @ q) @ CHR '','' # (''title.ilike.%'' @ q @ ''%'')"
    by (simp add: or_filter_string_def)
  then show ?thesis
    using split_on_append [OF 1] split_on_no_sep [OF 2] by simp
qed

lemma parse_fts_condition:
  "no_structure q \<Longrightarrow> parse_condition (''content.fts.'' @ q) = Reads (content, Fts, q)"
  by (simp add: parse_condition_def text_column_def text_operator_def unquoted_value_def
        no_structure_def list_all_iff)

lemma parse_ilike_condition:
  "no_structure q \<Longrightarrow>
     parse_condition (''title.ilike.%'' @ q @ ''%'') = Reads (title, ILike, CHR ''%'' # q @ ''%'')"
  by (simp add: parse_condition_def text_column_def text_operator_def unquoted_value_def
        no_structure_def list_all_iff)

lemma or_conditions_or_filter_string:
  "no_structure q \<Longrightarrow>
     or_conditions (or_filter_string q)
       = Reads [(content, Fts, q), (title, ILike, CHR ''%'' # q @ ''%'')]"
  by (simp add: or_conditions_def split_or_filter_string parse_fts_condition
        parse_ilike_condition del: append.simps)

lemma filter_sem_or_filter_string:
  "no_structure q \<Longrightarrow>
     filter_sem eng (Or (or_filter_string q))
       = any_condition eng [(content, Fts, q), (title, ILike, CHR ''%'' # q @ ''%'')]"
  by (simp add: or_conditions_or_filter_string del: any_condition.simps)

lemma is_alnum_no_structure:
  "is_alnum c \<Longrightarrow> c \<noteq> CHR '','' \<and> c \<noteq> CHR ''('' \<and> c \<noteq> CHR '')'' \<and> c \<noteq> CHR 0x22 \<and> c \<noteq> CHR 0x5C"
  by (auto simp: is_alnum_def less_eq_char_def)

lemma blank_separated_words_no_structure: "blank_separated_words q \<Longrightarrow> no_structure q"
  using is_alnum_no_structure
  by (auto simp: blank_separated_words_def no_structure_set list_all_iff)

text \<open>
  A query of several words separated by blanks makes the store reject the request,
  whatever the engine and the table: the search returns nothing.
\<close>

lemma filter_sem_blank_separated_words:
  assumes "blank_separated_words q"
  shows "filter_sem eng (Or (or_filter_string q)) = None"
proof -
  have "filter_sem eng (Or (or_filter_string q))
          = any_condition eng [(content, Fts, q), (title, ILike, CHR ''%'' # q @ ''%'')]"
    by (rule filter_sem_or_filter_string) (rule blank_separated_words_no_structure [OF assms])
  also have "\<dots> = None"
    using assms by simp
  finally show ?thesis .
qed

lemma searchPrompts_blank_separated_words:
  assumes "blank_separated_words (trim (query_of p))"
    and "offset_of p = Num off" "limit_of p = Num lim" "0 \<le> off" "0 \<le> lim"
  shows "searchPrompts (data_store eng tbl) p = []"
proof -
  have "trim (query_of p) \<noteq> []"
    using assms(1) by (auto simp: blank_separated_words_def)
  then have "filters (searchPrompts_query p)
               = Or (or_filter_string (trim (query_of p))) # category_filters p @ tag_filters p"
    by (simp add: searchPrompts_query_shape text_filters_def)
  then have "where_sem eng (filters (searchPrompts_query p)) = None"
    using filter_sem_blank_separated_words [OF assms(1)] by (simp del: filter_sem.simps)
  then show ?thesis
    by (simp add: searchPrompts_data_store [OF assms(2-5)])
qed

subsection \<open>Aggregation and lookup\<close>

lemma set_js_unique_from: "set (js_unique_from seen xs) = set xs - set seen"
  by (induction xs arbitrary: seen) auto

lemma distinct_js_unique_from: "distinct (js_unique_from seen xs)"
  by (induction xs arbitrary: seen) (auto simp: set_js_unique_from)

lemma set_js_unique [simp]: "set (js_unique xs) = set xs"
  by (simp add: js_unique_def set_js_unique_from)

lemma distinct_js_unique [simp]: "distinct (js_unique xs)"
  by (simp add: js_unique_def distinct_js_unique_from)

lemma insort_key_map_Some:
  "insort_key js_toString (Some x) (map Some xs) = map Some (insort_key (\<lambda>s. s) x xs)"
  by (induction xs) (auto simp: js_toString_def)

lemma js_sort_map_Some: "js_sort (map Some xs) = map Some (sort xs)"
  by (induction xs) (auto simp: js_sort_def insort_key_map_Some)

lemma js_unique_from_map_Some:
  "js_unique_from (map Some seen) (map Some xs) = map Some (js_unique_from seen xs)"
proof (induction xs arbitrary: seen)
  case Nil
  then show ?case by simp
next
  case (Cons x xs)
  have "(Some x \<in> Some ` set seen) = (x \<in> set seen)" by auto
  then show ?case using Cons.IH [of seen] Cons.IH [of "x # seen"] by simp
qed

lemma js_unique_map_Some: "js_unique (map Some xs) = map Some (js_unique xs)"
  using js_unique_from_map_Some [of "[]" xs] by (simp add: js_unique_def)

lemma data_store_aggregate:
  assumes "filter_sem eng f = Some m"
  shows "data_store eng tbl (sb_filter f (sb_select cols (sb_from ''prompts'')))
           = Resolved \<lparr>data = Some (filter m tbl), error = None, count = None\<rparr>"
  using assms
  by (simp add: data_store_def sb_filter_def sb_select_def sb_from_def modelled_order_def
        apply_order_def)

lemma category_rows:
  "map category (filter (\<lambda>r. category r \<noteq> None) tbl) = map Some (List.map_filter category tbl)"
  by (induction tbl) (auto simp: List.map_filter_simps)

lemma set_map_filter_category:
  "set (List.map_filter category tbl) = {c. \<exists>r\<in>set tbl. category r = Some c}"
  by (induction tbl) (auto simp: List.map_filter_simps split: option.splits)

lemma getCategories_data_store:
  "getCategories (data_store eng tbl) = map Some (sort (js_unique (List.map_filter category tbl)))"
proof -
  let ?rows = "filter (\<lambda>r. category r \<noteq> None) tbl"
  have q: "data_store eng tbl getCategories_query
             = Resolved \<lparr>data = Some ?rows, error = None, count = None\<rparr>"
    unfolding getCategories_query_def sb_not_is_null_def
    by (rule data_store_aggregate) (simp add: text_column_def)
  have "getCategories (data_store eng tbl) = js_sort (js_unique (map category ?rows))"
    by (simp add: getCategories_def q)
  then show ?thesis
    by (simp only: category_rows js_unique_map_Some js_sort_map_Some)
qed

lemma getTags_data_store:
  "sorted_wrt (<) (getTags (data_store eng tbl))
   \<and> set (getTags (data_store eng tbl)) = (\<Union>r\<in>set tbl. tag_set r)"
proof -
  let ?rows = "filter (\<lambda>r. tags r \<noteq> None) tbl"
  have q: "data_store eng tbl getTags_query
             = Resolved \<lparr>data = Some ?rows, error = None, count = None\<rparr>"
    unfolding getTags_query_def sb_not_is_null_def
    by (rule data_store_aggregate) simp
  have "getTags (data_store eng tbl)
          = sort (js_unique (concat (map (\<lambda>item. case tags item of None \<Rightarrow> [] | Some ts \<Rightarrow> ts) ?rows)))"
    by (simp add: getTags_def q)
  moreover have "(\<Union>r\<in>set ?rows. set (case tags r of None \<Rightarrow> [] | Some ts \<Rightarrow> ts))
                   = (\<Union>r\<in>set tbl. tag_set r)"
    by (auto simp: tag_set_def split: option.splits)
  ultimately show ?thesis
    by (simp add: strict_sorted_iff)
qed

lemma filter_unique:
  "distinct (map f xs) \<Longrightarrow>
     filter (\<lambda>x. f x = i) xs = (case find (\<lambda>x. f x = i) xs of None \<Rightarrow> [] | Some x \<Rightarrow> [x])"
proof (induction xs)
  case Nil
  then show ?case by simp
next
  case (Cons x xs)
  show ?case
  proof (cases "f x = i")
    case True
    moreover have "f x \<notin> f ` set xs"
      using Cons.prems by simp
    ultimately have "\<forall>y\<in>set xs. f y \<noteq> i"
      by blast
    then have "filter (\<lambda>y. f y = i) xs = []"
      by (simp add: filter_empty_conv)
    then show ?thesis using True by simp
  next
    case False
    then show ?thesis using Cons by simp
  qed
qed

lemma data_store_lookup:
  "data_store eng tbl (getPromptById_query i)
     = Resolved \<lparr>data = Some (filter (\<lambda>r. prompt_id r = i) tbl), error = None, count = None\<rparr>"
  unfolding getPromptById_query_def sb_eq_def
  by (rule data_store_aggregate) simp

lemma getPromptById_data_store:
  assumes "distinct (map prompt_id tbl)"
  shows "getPromptById (data_store_single eng tbl) i = find (\<lambda>r. prompt_id r = i) tbl"
proof (cases "find (\<lambda>r. prompt_id r = i) tbl")
  case None
  then have "filter (\<lambda>r. prompt_id r = i) tbl = []"
    using filter_unique [OF assms, of i] by simp
  then show ?thesis
    using None by (simp add: getPromptById_def data_store_single_def data_store_lookup)
next
  case (Some r)
  then have "filter (\<lambda>r. prompt_id r = i) tbl = [r]"
    using filter_unique [OF assms, of i] by simp
  then show ?thesis
    using Some by (simp add: getPromptById_def data_store_single_def data_store_lookup)
qed

lemma find_unique_iff:
  assumes "distinct (map f xs)"
  shows "find (\<lambda>x. f x = i) xs = Some r \<longleftrightarrow> r \<in> set xs \<and> f r = i"
proof (cases "find (\<lambda>x. f x = i) xs")
  case None
  then have "\<not> (\<exists>x\<in>set xs. f x = i)"
    by (simp add: find_None_iff)
  then show ?thesis by (auto simp: None)
next
  case (Some x)
  then have "filter (\<lambda>x. f x = i) xs = [x]"
    using filter_unique [OF assms, of i] by simp
  then have "set (filter (\<lambda>x. f x = i) xs) = {x}"
    by simp
  then have "{y \<in> set xs. f y = i} = {x}"
    by simp
  then show ?thesis using Some by auto
qed

subsection \<open>The endpoints\<close>

lemma split_on_nonempty: "split_on sep s \<noteq> []"
  by (induction s) (auto split: list.splits)

lemma split_on_join_commas:
  "ws \<noteq> [] \<Longrightarrow> \<forall>w\<in>set ws. CHR '','' \<notin> set w \<Longrightarrow> split_on CHR '','' (join_commas ws) = ws"
proof (induction ws rule: join_commas.induct)
  case 1
  then show ?case by simp
next
  case (2 w)
  then show ?case by (simp add: split_on_no_sep)
next
  case (3 w v vs)
  then show ?case by (simp add: split_on_append)
qed

lemma no_sep_in_split_on: "w \<in> set (split_on sep s) \<Longrightarrow> sep \<notin> set w"
proof (induction s arbitrary: w)
  case Nil
  then show ?case by simp
next
  case (Cons c cs)
  then show ?case
    by (cases "split_on sep cs") (auto split: if_splits)
qed

lemma set_trim: "set (trim s) \<subseteq> set s"
proof -
  have "set (trim s) \<subseteq> set (dropWhile js_whitespace s)"
    unfolding trim_def set_rev by (metis set_dropWhileD set_rev subsetI)
  also have "\<dots> \<subseteq> set s"
    by (auto dest: set_dropWhileD)
  finally show ?thesis .
qed

lemma dropWhile_fixed: "xs \<noteq> [] \<Longrightarrow> \<not> P (hd xs) \<Longrightarrow> dropWhile P xs = xs"
  by (cases xs) simp_all

lemma trim_fixed:
  assumes "s \<noteq> []" "\<not> js_whitespace (hd s)" "\<not> js_whitespace (last s)"
  shows "trim s = s"
proof -
  have 1: "dropWhile js_whitespace s = s"
    using assms(1,2) by (rule dropWhile_fixed)
  have "rev s \<noteq> []" "\<not> js_whitespace (hd (rev s))"
    using assms(1,3) by (simp_all add: hd_rev)
  then have 2: "dropWhile js_whitespace (rev s) = rev s"
    by (rule dropWhile_fixed)
  show ?thesis by (simp add: trim_def 1 2)
qed

lemma trim_ends:
  assumes "trim s \<noteq> []"
  shows "\<not> js_whitespace (hd (trim s)) \<and> \<not> js_whitespace (last (trim s))"
proof -
  let ?a = "dropWhile js_whitespace s"
  let ?b = "dropWhile js_whitespace (rev ?a)"
  have t: "trim s = rev ?b" by (simp add: trim_def)
  have b: "?b \<noteq> []" using assms t by simp
  then have last_ok: "\<not> js_whitespace (hd ?b)" by (rule hd_dropWhile)
  have a: "?a \<noteq> []"
  proof
    assume e: "?a = []"
    have "?b = []" unfolding e by simp
    with b show False by contradiction
  qed
  then have hd_a: "\<not> js_whitespace (hd ?a)" by (rule hd_dropWhile)
  obtain pre where pre: "rev ?a = pre @ ?b"
    by (metis takeWhile_dropWhile_id)
  then have "?a = rev ?b @ rev pre"
    by (metis rev_append rev_rev_ident)
  then have "hd ?a = hd (rev ?b)"
    using b by (metis hd_append2 rev_is_Nil_conv)
  then have "\<not> js_whitespace (hd (trim s))" using hd_a t by simp
  moreover have "last (trim s) = hd ?b" using b t by (simp add: last_rev)
  ultimately show ?thesis using last_ok by simp
qed

lemma trim_idem: "trim (trim s) = trim s"
proof (cases "trim s = []")
  case True
  then show ?thesis by simp
next
  case False
  then show ?thesis using trim_ends [OF False] by (intro trim_fixed) simp_all
qed

lemma parse_tags_elements:
  assumes "t \<in> set (parse_tags v)"
  shows "t \<noteq> [] \<and> trim t = t \<and> CHR '','' \<notin> set t"
proof -
  from assms obtain s w where s: "v = Some s" and w: "w \<in> set (split_on CHR '','' s)"
    and t: "t = trim w" "t \<noteq> []"
    by (auto simp: parse_tags_def split: option.splits if_splits)
  have "CHR '','' \<notin> set w" using w by (rule no_sep_in_split_on)
  then have "CHR '','' \<notin> set t" using set_trim [of w] t(1) by auto
  then show ?thesis using t trim_idem by simp
qed

lemma parse_tags_join:
  assumes "ws \<noteq> []" "\<forall>w\<in>set ws. CHR '','' \<notin> set w"
  shows "parse_tags (Some (join_commas ws)) = filter (\<lambda>t. t \<noteq> []) (map trim ws)"
proof (cases "join_commas ws = []")
  case True
  then have "split_on CHR '','' [] = ws"
    using split_on_join_commas [OF assms] by simp
  then have "ws = [[]]" by simp
  then show ?thesis using True by (simp add: parse_tags_def)
next
  case False
  then show ?thesis
    using split_on_join_commas [OF assms] by (simp add: parse_tags_def)
qed

lemma getPromptCount_data_store: "getPromptCount (data_store eng tbl) = int (length tbl)"
  by (simp add: getPromptCount_def getPromptCount_query_def data_store_def sb_select_count_def
        sb_from_def modelled_order_def)

section \<open>The claims\<close>

subsection \<open>Text filter\<close>

text \<open>
  C1. The claim: when the trimmed query is not empty, a record matches the text filter
  if its content matches the query in the full-text search of the Data Store or its
  title contains the query as a substring without regard to letter case. The code
  pastes the trimmed query, unescaped, into the raw filter
  \<^verbatim>\<open>content.fts.q,title.ilike.%q%\<close>, and the claim fails on ordinary queries:
  \<^item> the query \<^verbatim>\<open>code review\<close> finds nothing on the table of the end-to-end scenario,
    whatever the engine, although the table holds the record titled
    \<^verbatim>\<open>Code Review\<close>: two words separated by a blank are no text-search query, and
    the store rejects the request. Without a query the same search finds both records,
    and the query \<^verbatim>\<open>code\<close> finds the record;
  \<^item> the query \<^verbatim>\<open>a,b\<close> finds nothing on a table that holds the record titled
    \<^verbatim>\<open>a,b\<close>, whatever the engine: the comma of the query separates conditions of
    the filter string;
  \<^item> the query \<^verbatim>\<open>a_b\<close> finds the record titled \<^verbatim>\<open>axb\<close>, whose content does not
    match and whose title does not contain \<^verbatim>\<open>a_b\<close>: the underscore of the query is
    a wild card of the pattern.
\<close>

theorem text_filter_unescaped:
  "searchPrompts (data_store eng sample_table) (criteria (Some ''code review'') None None) = []
   \<and> review_prompt \<in> set sample_table
   \<and> title_contains ''code review'' review_prompt
   \<and> searchPrompts (data_store eng sample_table) (criteria None None None)
       = [review_prompt, email_prompt]
   \<and> searchPrompts (data_store sample_engine sample_table) (criteria (Some ''code'') None None)
       = [review_prompt]
   \<and> searchPrompts (data_store eng [comma_prompt]) (criteria (Some ''a,b'') None None) = []
   \<and> title_contains ''a,b'' comma_prompt
   \<and> searchPrompts (data_store sample_engine [axb_prompt]) (criteria (Some ''a_b'') None None)
       = [axb_prompt]
   \<and> fts_query sample_engine ''a_b'' = Some (contains_ci ''a_b'')
   \<and> \<not> content_matches (contains_ci ''a_b'') axb_prompt
   \<and> \<not> title_contains ''a_b'' axb_prompt"
proof -
  have words: "blank_separated_words (trim (query_of (criteria (Some ''code review'') None None)))"
    by code_simp
  have "offset_of (criteria (Some ''code review'') None None) = Num 0"
    and "limit_of (criteria (Some ''code review'') None None) = Num 50"
    by (simp_all add: criteria_def offset_of_def limit_of_def)
  with words
  have 1: "searchPrompts (data_store eng sample_table) (criteria (Some ''code review'') None None)
             = []"
    by (rule searchPrompts_blank_separated_words) simp_all
  have 2: "review_prompt \<in> set sample_table"
    by (simp add: sample_table_def)
  have 3: "title_contains ''code review'' review_prompt"
    by code_simp
  have 4: "searchPrompts (data_store eng sample_table) (criteria None None None)
             = [review_prompt, email_prompt]"
    by code_simp
  have 5: "searchPrompts (data_store sample_engine sample_table)
             (criteria (Some ''code'') None None) = [review_prompt]"
    by code_simp
  have 6: "searchPrompts (data_store eng [comma_prompt]) (criteria (Some ''a,b'') None None) = []"
    by code_simp
  have 7: "title_contains ''a,b'' comma_prompt"
    by code_simp
  have 8: "searchPrompts (data_store sample_engine [axb_prompt])
             (criteria (Some ''a_b'') None None) = [axb_prompt]"
    by code_simp
  have 9: "fts_query sample_engine ''a_b'' = Some (contains_ci ''a_b'')"
    by (simp add: sample_engine_def)
  have 10: "\<not> content_matches (contains_ci ''a_b'') axb_prompt"
    by code_simp
  have 11: "\<not> title_contains ''a_b'' axb_prompt"
    by code_simp
  from 1 2 3 4 5 6 7 8 9 10 11 show ?thesis
    by (intro conjI)
qed

subsection \<open>Tag filter\<close>

text \<open>
  C2. The claim: for every record and every non-empty list of requested tags, the
  record matches the tag filter if and only if its tag set contains all of them. The
  code hands the list to \<^verbatim>\<open>.contains\<close>, which writes the tags unquoted into the array
  literal \<^verbatim>\<open>cs.{...}\<close>, and the claim fails for tags whose text means something in
  that literal, whatever the engine:
  \<^item> the lists \<^verbatim>\<open>['a,b']\<close> and \<^verbatim>\<open>['a','b']\<close> give the same literal; the search for
    the one tag \<^verbatim>\<open>a,b\<close> finds the record tagged \<^verbatim>\<open>a\<close>, \<^verbatim>\<open>b\<close>, \<^verbatim>\<open>c\<close>, which
    does not carry that tag, and does not find the record that carries it;
  \<^item> the search for the tag \<^verbatim>\<open>null\<close> does not find the record tagged \<^verbatim>\<open>null\<close>,
    also through \<^verbatim>\<open>GET /api/prompts?tags=null\<close>: the unquoted word is the null
    element, which equals nothing.
  For the tags of the specification's example the filter is the superset test: of
  the records tagged \<^verbatim>\<open>a\<close>, \<^verbatim>\<open>b\<close>, \<^verbatim>\<open>c\<close> and \<^verbatim>\<open>a\<close>, the request of
  \<^verbatim>\<open>a\<close> and \<^verbatim>\<open>b\<close> finds the first only.
\<close>

theorem tag_filter_unquoted:
  "array_literal [''a,b''] = array_literal [''a'', ''b'']
   \<and> searchPrompts (data_store eng [tagged 1 [''a'', ''b'', ''c'']])
         (criteria None None (Some [''a,b''])) = [tagged 1 [''a'', ''b'', ''c'']]
   \<and> ''a,b'' \<notin> tag_set (tagged 1 [''a'', ''b'', ''c''])
   \<and> searchPrompts (data_store eng [tagged 2 [''a,b'']]) (criteria None None (Some [''a,b'']))
       = []
   \<and> ''a,b'' \<in> tag_set (tagged 2 [''a,b''])
   \<and> searchPrompts (data_store eng [tagged 3 [''null'']]) (criteria None None (Some [''null'']))
       = []
   \<and> ''null'' \<in> tag_set (tagged 3 [''null''])
   \<and> body (GET_prompts (data_store eng [tagged 3 [''null'']]) null_tag_params)
       = PromptsBody [] 0 (GET_prompts_params null_tag_params)
   \<and> sp_tags (GET_prompts_params null_tag_params) = Some [''null'']
   \<and> searchPrompts (data_store eng [tagged 4 [''a'', ''b'', ''c''], tagged 5 [''a'']])
         (criteria None None (Some [''a'', ''b''])) = [tagged 4 [''a'', ''b'', ''c'']]"
proof -
  have 1: "array_literal [''a,b''] = array_literal [''a'', ''b'']"
    by (simp add: array_literal_def)
  have 2: "searchPrompts (data_store eng [tagged 1 [''a'', ''b'', ''c'']])
             (criteria None None (Some [''a,b''])) = [tagged 1 [''a'', ''b'', ''c'']]"
    by code_simp
  have 3: "''a,b'' \<notin> tag_set (tagged 1 [''a'', ''b'', ''c''])"
    by (simp add: tag_set_def tagged_def)
  have 4: "searchPrompts (data_store eng [tagged 2 [''a,b'']])
             (criteria None None (Some [''a,b''])) = []"
    by code_simp
  have 5: "''a,b'' \<in> tag_set (tagged 2 [''a,b''])"
    by (simp add: tag_set_def tagged_def)
  have 6: "searchPrompts (data_store eng [tagged 3 [''null'']])
             (criteria None None (Some [''null''])) = []"
    by code_simp
  have 7: "''null'' \<in> tag_set (tagged 3 [''null''])"
    by (simp add: tag_set_def tagged_def)
  have 8: "body (GET_prompts (data_store eng [tagged 3 [''null'']]) null_tag_params)
             = PromptsBody [] 0 (GET_prompts_params null_tag_params)"
    by code_simp
  have 9: "sp_tags (GET_prompts_params null_tag_params) = Some [''null'']"
    by code_simp
  have 10: "searchPrompts (data_store eng [tagged 4 [''a'', ''b'', ''c''], tagged 5 [''a'']])
              (criteria None None (Some [''a'', ''b''])) = [tagged 4 [''a'', ''b'', ''c'']]"
    by code_simp
  from 1 2 3 4 5 6 7 8 9 10 show ?thesis
    by (intro conjI)
qed

subsection \<open>Category filter\<close>

text \<open>
  C3. With a category \<open>c\<close> whose trimmed text is not empty, the rows found over a
  window that covers the table are exactly those rows found without the category
  filter whose category equals the trimmed \<open>c\<close> (equality of strings, so letter case
  counts; a row without category never matches); for an offset and a limit that are
  non-negative integers the result is the window of these rows. With a category that
  is empty after trimming the filter is not applied, for every Data Store.
\<close>

theorem category_filter_exact:
  assumes "sp_category p = Some c"
  shows "(trim c \<noteq> [] \<longrightarrow>
            searchPrompts (data_store eng tbl) (unpaged tbl p)
              = filter (\<lambda>r. category r = Some (trim c))
                  (searchPrompts (data_store eng tbl) (unpaged tbl (p\<lparr>sp_category := None\<rparr>))))
         \<and> (trim c \<noteq> [] \<and> offset_of p = Num off \<and> limit_of p = Num lim \<and> 0 \<le> off \<and> 0 \<le> lim \<longrightarrow>
            searchPrompts (data_store eng tbl) p
              = page off lim (filter (\<lambda>r. category r = Some (trim c))
                  (searchPrompts (data_store eng tbl) (unpaged tbl (p\<lparr>sp_category := None\<rparr>)))))
         \<and> (trim c = [] \<longrightarrow> searchPrompts db p = searchPrompts db (p\<lparr>sp_category := None\<rparr>))"
proof -
  let ?p' = "p\<lparr>sp_category := None\<rparr>"
  have all: "searchPrompts (data_store eng tbl) (unpaged tbl p)
          = filter (\<lambda>r. category r = Some (trim c))
              (searchPrompts (data_store eng tbl) (unpaged tbl ?p'))"
    if c: "trim c \<noteq> []"
  proof -
    have fs: "filters (searchPrompts_query p)
                = text_filters ?p' @ [Eq ''category'' (Text (trim c))] @ tag_filters ?p'"
         "filters (searchPrompts_query ?p') = text_filters ?p' @ tag_filters ?p'"
      using assms c
      by (simp_all add: searchPrompts_query_shape text_filters_def category_filters_def
            tag_filters_def query_of_def tags_of_def)
    show ?thesis
      by (auto simp: searchPrompts_unpaged fs where_sem_append filter_order_desc text_column_def
            split: option.splits intro!: arg_cong [where f = order_desc] filter_cong)
  qed
  have paged: "searchPrompts (data_store eng tbl) p
              = page off lim (filter (\<lambda>r. category r = Some (trim c))
                  (searchPrompts (data_store eng tbl) (unpaged tbl ?p')))"
    if "trim c \<noteq> [] \<and> offset_of p = Num off \<and> limit_of p = Num lim \<and> 0 \<le> off \<and> 0 \<le> lim"
    using searchPrompts_paged [of p off lim eng tbl] that all by simp
  have none: "searchPrompts db p = searchPrompts db ?p'" if "trim c = []"
    using that assms
    by (intro searchPrompts_cong)
       (simp add: searchPrompts_query_shape text_filters_def category_filters_def
          tag_filters_def query_of_def tags_of_def limit_of_def offset_of_def)
  from all paged none show ?thesis by blast
qed

theorem category_filter_exact_witness:
  "sp_category (criteria None (Some '' Writing'') None) = Some '' Writing''
   \<and> trim '' Writing'' = ''Writing''
   \<and> offset_of (criteria None (Some '' Writing'') None) = Num 0
   \<and> limit_of (criteria None (Some '' Writing'') None) = Num 50
   \<and> (0::int) \<le> 0 \<and> (0::int) \<le> 50
   \<and> searchPrompts (data_store sample_engine sample_table) (criteria None (Some '' Writing'') None)
        = [email_prompt]
   \<and> searchPrompts (data_store sample_engine sample_table) (criteria None (Some ''writing'') None)
        = []
   \<and> sp_category (criteria None (Some ''  '') None) = Some ''  ''
   \<and> trim ''  '' = []
   \<and> searchPrompts (data_store sample_engine sample_table) (criteria None (Some ''  '') None)
        = [review_prompt, email_prompt]"
proof -
  let ?p = "criteria None (Some '' Writing'') None"
  let ?e = "criteria None (Some ''  '') None"
  have h1: "sp_category ?p = Some '' Writing''" by (simp add: criteria_def)
  have h2: "trim '' Writing'' = ''Writing''" by code_simp
  have h3: "offset_of ?p = Num 0 \<and> limit_of ?p = Num 50 \<and> (0::int) \<le> 0 \<and> (0::int) \<le> 50"
    by (simp add: criteria_def offset_of_def limit_of_def)
  have "searchPrompts (data_store sample_engine sample_table) ?p
          = page 0 50 (filter (\<lambda>r. category r = Some (trim '' Writing''))
              (searchPrompts (data_store sample_engine sample_table)
                 (unpaged sample_table (?p\<lparr>sp_category := None\<rparr>))))"
    using category_filter_exact [OF h1, of sample_engine sample_table 0 50] h2 h3 by auto
  also have "\<dots> = [email_prompt]" by code_simp
  finally have c: "searchPrompts (data_store sample_engine sample_table) ?p = [email_prompt]" .
  have l: "searchPrompts (data_store sample_engine sample_table) (criteria None (Some ''writing'') None)
          = []"
    by code_simp
  have g1: "sp_category ?e = Some ''  ''" by (simp add: criteria_def)
  have g2: "trim ''  '' = []" by code_simp
  have "searchPrompts (data_store sample_engine sample_table) ?e
          = searchPrompts (data_store sample_engine sample_table) (?e\<lparr>sp_category := None\<rparr>)"
    using category_filter_exact [OF g1, of sample_engine sample_table 0 50 "data_store sample_engine sample_table"] g2
    by blast
  also have "\<dots> = [review_prompt, email_prompt]" by code_simp
  finally have n: "searchPrompts (data_store sample_engine sample_table) ?e
                     = [review_prompt, email_prompt]" .
  show ?thesis using h1 h2 h3 c l g1 g2 n by simp
qed

subsection \<open>Order and pagination\<close>

text \<open>
  C4, as amended. For criteria whose offset and limit are integers that are not
  negative: the request always asks for \<^verbatim>\<open>created_at\<close> descending and for no other
  order; the rows that pass the filters come latest first; the result is the window of
  \<open>lim\<close> rows from zero-based position \<open>off\<close> of that sequence, position \<open>i\<close> of the
  result being position \<open>off + i\<close> of the sequence; so it is sorted and has at most
  \<open>lim\<close> rows. An unset limit is 50 and an unset offset is 0, for every Data Store.
\<close>

theorem search_sorted_and_paged:
  assumes "offset_of p = Num off" "limit_of p = Num lim" "0 \<le> off" "0 \<le> lim"
  shows "order_by (searchPrompts_query p) = Some (''created_at'', False)
     \<and> sorted_wrt (\<lambda>a b. not_older (created_at a) (created_at b))
          (searchPrompts (data_store eng tbl) (unpaged tbl p))
     \<and> searchPrompts (data_store eng tbl) p
          = page off lim (searchPrompts (data_store eng tbl) (unpaged tbl p))
     \<and> (\<forall>i < length (searchPrompts (data_store eng tbl) p).
            searchPrompts (data_store eng tbl) p ! i
              = searchPrompts (data_store eng tbl) (unpaged tbl p) ! (nat off + i))
     \<and> sorted_wrt (\<lambda>a b. not_older (created_at a) (created_at b))
          (searchPrompts (data_store eng tbl) p)
     \<and> int (length (searchPrompts (data_store eng tbl) p)) \<le> lim
     \<and> searchPrompts db (p\<lparr>sp_limit := None\<rparr>) = searchPrompts db (p\<lparr>sp_limit := Some (Num 50)\<rparr>)
     \<and> searchPrompts db (p\<lparr>sp_offset := None\<rparr>) = searchPrompts db (p\<lparr>sp_offset := Some (Num 0)\<rparr>)"
proof -
  let ?all = "searchPrompts (data_store eng tbl) (unpaged tbl p)"
  let ?res = "searchPrompts (data_store eng tbl) p"
  have ord: "order_by (searchPrompts_query p) = Some (''created_at'', False)"
    by (simp add: searchPrompts_query_shape)
  have all_sorted: "sorted_wrt (\<lambda>a b. not_older (created_at a) (created_at b)) ?all"
    by (simp add: searchPrompts_unpaged sorted_order_desc split: option.splits)
  have res: "?res = page off lim ?all"
    by (rule searchPrompts_paged [OF assms])
  have nth: "\<forall>i < length ?res. ?res ! i = ?all ! (nat off + i)"
    by (auto simp: res page_def nth_drop)
  have res_sorted: "sorted_wrt (\<lambda>a b. not_older (created_at a) (created_at b)) ?res"
    using all_sorted by (simp add: res page_def sorted_wrt_take sorted_wrt_drop)
  have len: "int (length ?res) \<le> lim"
    using assms(4) by (simp add: res page_def)
  have d1: "searchPrompts db (p\<lparr>sp_limit := None\<rparr>) = searchPrompts db (p\<lparr>sp_limit := Some (Num 50)\<rparr>)"
    by (intro searchPrompts_cong searchPrompts_query_cong)
       (simp_all add: query_of_def tags_of_def limit_of_def offset_of_def)
  have d2: "searchPrompts db (p\<lparr>sp_offset := None\<rparr>) = searchPrompts db (p\<lparr>sp_offset := Some (Num 0)\<rparr>)"
    by (intro searchPrompts_cong searchPrompts_query_cong)
       (simp_all add: query_of_def tags_of_def limit_of_def offset_of_def)
  from ord all_sorted res nth res_sorted len d1 d2 show ?thesis
    by blast
qed

theorem search_sorted_and_paged_witness:
  "offset_of ((criteria None None None)\<lparr>sp_limit := Some (Num 2), sp_offset := Some (Num 2)\<rparr>) = Num 2
   \<and> limit_of ((criteria None None None)\<lparr>sp_limit := Some (Num 2), sp_offset := Some (Num 2)\<rparr>) = Num 2
   \<and> (0::int) \<le> 2
   \<and> searchPrompts (data_store sample_engine five_prompts) (unpaged five_prompts (criteria None None None))
        = [dated 3 50, dated 5 40, dated 1 30, dated 4 20, dated 2 10]
   \<and> searchPrompts (data_store sample_engine five_prompts)
        ((criteria None None None)\<lparr>sp_limit := Some (Num 2), sp_offset := Some (Num 2)\<rparr>)
        = [dated 1 30, dated 4 20]"
proof -
  let ?p = "(criteria None None None)\<lparr>sp_limit := Some (Num 2), sp_offset := Some (Num 2)\<rparr>"
  have h1: "offset_of ?p = Num 2" and h2: "limit_of ?p = Num 2"
    by (simp_all add: criteria_def offset_of_def limit_of_def)
  have h3: "(0::int) \<le> 2" by simp
  have u: "unpaged five_prompts ?p = unpaged five_prompts (criteria None None None)"
    by (simp add: unpaged_def criteria_def)
  have a: "searchPrompts (data_store sample_engine five_prompts)
             (unpaged five_prompts (criteria None None None))
           = [dated 3 50, dated 5 40, dated 1 30, dated 4 20, dated 2 10]"
    by code_simp
  have "searchPrompts (data_store sample_engine five_prompts) ?p
          = page 2 2 (searchPrompts (data_store sample_engine five_prompts) (unpaged five_prompts ?p))"
    using search_sorted_and_paged [OF h1 h2 h3 h3] by blast
  also have "\<dots> = [dated 1 30, dated 4 20]"
    by (simp add: u a page_def)
  finally show ?thesis using h1 h2 a by simp
qed

text \<open>
  The claim as stated, for every criteria set, fails for a negative limit: the request
  with limit \<open>-1\<close> is answered with an error, the result is the empty sequence, and
  its length is not at most \<open>-1\<close>.
\<close>

theorem search_paged_counterexample:
  "limit_of negative_limit = Num (- 1)
   \<and> searchPrompts (data_store sample_engine sample_table) negative_limit = []
   \<and> \<not> int (length (searchPrompts (data_store sample_engine sample_table) negative_limit)) \<le> - 1"
proof -
  have l: "limit_of negative_limit = Num (- 1)"
    by (simp add: negative_limit_def limit_of_def)
  have e: "searchPrompts (data_store sample_engine sample_table) negative_limit = []"
    by code_simp
  show ?thesis using l e by simp
qed

subsection \<open>Fail-soft behaviour\<close>

text \<open>
  C5. Whatever the arguments and whatever the Data Store does: when the round trip
  rejects or its reply carries an error, searchPrompts returns the empty sequence,
  getPromptCount returns 0, getCategories and getTags return the empty sequence. The
  result types have no error value, and each function returns on failure exactly what
  it returns on a successful round trip that finds zero rows.
\<close>

theorem fail_soft:
  "(failed (db (searchPrompts_query p)) \<longrightarrow>
      searchPrompts db p = [] \<and> searchPrompts db p = searchPrompts empty_store p)
   \<and> (failed (db getPromptCount_query) \<longrightarrow>
      getPromptCount db = 0 \<and> getPromptCount db = getPromptCount empty_store)
   \<and> (failed (db getCategories_query) \<longrightarrow>
      getCategories db = [] \<and> getCategories db = getCategories empty_store)
   \<and> (failed (db getTags_query) \<longrightarrow>
      getTags db = [] \<and> getTags db = getTags empty_store)"
proof -
  have e: "searchPrompts empty_store p = []" "getPromptCount empty_store = 0"
    "getCategories empty_store = []" "getTags empty_store = []"
    by (simp_all add: empty_store_def searchPrompts_def getPromptCount_def getCategories_def
          getTags_def js_sort_def js_unique_def)
  show ?thesis
    unfolding e
    by (simp add: failed_def searchPrompts_def getPromptCount_def getCategories_def
          getTags_def split: outcome.splits)
qed

theorem fail_soft_witness:
  "failed (failing_store (searchPrompts_query (criteria (Some ''email'') None None)))
   \<and> failed (failing_store getPromptCount_query)
   \<and> failed (failing_store getCategories_query)
   \<and> failed (failing_store getTags_query)
   \<and> searchPrompts failing_store (criteria (Some ''email'') None None) = []
   \<and> getPromptCount failing_store = 0
   \<and> getCategories failing_store = []
   \<and> getTags failing_store = []"
  using fail_soft [of failing_store "criteria (Some ''email'') None None"]
  by (simp add: failed_def failing_store_def)

subsection \<open>Vocabularies\<close>

text \<open>
  C6. On the Data Store, getCategories returns no null, and the values it returns are
  strictly ascending in the lexicographic order of strings (so sorted and without
  duplicates) and are exactly the categories that occur in the table; getTags returns
  a strictly ascending list whose elements are exactly the tags that occur in some
  row. A tag carried by two records therefore occurs once.
\<close>

theorem vocabularies:
  "None \<notin> set (getCategories (data_store eng tbl))
   \<and> sorted_wrt (<) (map the (getCategories (data_store eng tbl)))
   \<and> the ` set (getCategories (data_store eng tbl)) = {c. \<exists>r\<in>set tbl. category r = Some c}
   \<and> sorted_wrt (<) (getTags (data_store eng tbl))
   \<and> set (getTags (data_store eng tbl)) = (\<Union>r\<in>set tbl. tag_set r)"
proof -
  let ?cs = "sort (js_unique (List.map_filter category tbl))"
  have c: "getCategories (data_store eng tbl) = map Some ?cs"
    by (rule getCategories_data_store)
  have 1: "None \<notin> set (getCategories (data_store eng tbl))"
    by (auto simp: c)
  have m: "map the (getCategories (data_store eng tbl)) = ?cs"
    by (simp add: c comp_def)
  have 2: "sorted_wrt (<) (map the (getCategories (data_store eng tbl)))"
    by (simp add: m strict_sorted_iff)
  have "the ` set (getCategories (data_store eng tbl)) = set (map the (getCategories (data_store eng tbl)))"
    by simp
  also have "\<dots> = {c. \<exists>r\<in>set tbl. category r = Some c}"
    by (simp only: m) (simp add: set_map_filter_category)
  finally have 3: "the ` set (getCategories (data_store eng tbl)) = {c. \<exists>r\<in>set tbl. category r = Some c}" .
  show ?thesis
    by (intro conjI 1 2 3 getTags_data_store [THEN conjunct1] getTags_data_store [THEN conjunct2])
qed

theorem vocabularies_witness:
  "set (getTags (data_store sample_engine [tagged 1 [''x''], tagged 2 [''x'']]))
     = (\<Union>r\<in>set [tagged 1 [''x''], tagged 2 [''x'']]. tag_set r)
   \<and> getTags (data_store sample_engine [tagged 1 [''x''], tagged 2 [''x'']]) = [''x'']
   \<and> getTags (data_store sample_engine sample_table) = [''business'', ''code'', ''email'']
   \<and> getCategories (data_store sample_engine sample_table)
        = [Some ''Development'', Some ''Writing'']"
proof -
  have "set (getTags (data_store sample_engine [tagged 1 [''x''], tagged 2 [''x'']]))
          = (\<Union>r\<in>set [tagged 1 [''x''], tagged 2 [''x'']]. tag_set r)"
    using vocabularies [of sample_engine "[tagged 1 [''x''], tagged 2 [''x'']]"] by blast
  moreover have "getTags (data_store sample_engine [tagged 1 [''x''], tagged 2 [''x'']]) = [''x'']"
    by code_simp
  moreover have "getTags (data_store sample_engine sample_table) = [''business'', ''code'', ''email'']"
    by code_simp
  moreover have "getCategories (data_store sample_engine sample_table)
                   = [Some ''Development'', Some ''Writing'']"
    by code_simp
  ultimately show ?thesis by blast
qed

subsection \<open>Lookup by id\<close>

text \<open>
  C7. On a table whose ids are pairwise distinct (\<^verbatim>\<open>id\<close> is the primary key),
  getPromptById returns a row exactly when that row is in the table and its id equals
  the given one, and returns null exactly when no row has that id. For every Data
  Store, a rejected round trip or a reply with an error gives null as well, the value
  of "not found".
\<close>

theorem lookup_by_id:
  "(distinct (map prompt_id tbl) \<longrightarrow>
      (\<forall>r. getPromptById (data_store_single eng tbl) i = Some r
              \<longleftrightarrow> r \<in> set tbl \<and> prompt_id r = i)
      \<and> (getPromptById (data_store_single eng tbl) i = None \<longleftrightarrow> i \<notin> prompt_id ` set tbl))
   \<and> (failed (db1 (getPromptById_query i)) \<longrightarrow> getPromptById db1 i = None)"
proof (intro conjI impI allI)
  fix r
  assume d: "distinct (map prompt_id tbl)"
  show "getPromptById (data_store_single eng tbl) i = Some r \<longleftrightarrow> r \<in> set tbl \<and> prompt_id r = i"
    by (simp add: getPromptById_data_store [OF d] find_unique_iff [OF d])
next
  assume d: "distinct (map prompt_id tbl)"
  show "getPromptById (data_store_single eng tbl) i = None \<longleftrightarrow> i \<notin> prompt_id ` set tbl"
    by (auto simp: getPromptById_data_store [OF d] find_None_iff)
next
  assume "failed (db1 (getPromptById_query i))"
  then show "getPromptById db1 i = None"
    by (auto simp: failed_def getPromptById_def split: outcome.splits)
qed

theorem lookup_by_id_witness:
  "distinct (map prompt_id sample_table)
   \<and> getPromptById (data_store_single sample_engine sample_table) 2 = Some review_prompt
   \<and> review_prompt \<in> set sample_table \<and> prompt_id review_prompt = 2
   \<and> getPromptById (data_store_single sample_engine sample_table) 7 = None
   \<and> failed (failing_single (getPromptById_query 2))
   \<and> getPromptById failing_single 2 = None"
proof -
  have d: "distinct (map prompt_id sample_table)"
    by (simp add: sample_table_def email_prompt_def review_prompt_def)
  have r: "review_prompt \<in> set sample_table \<and> prompt_id review_prompt = 2"
    by (simp add: sample_table_def review_prompt_def)
  have n: "7 \<notin> prompt_id ` set sample_table"
    by (simp add: sample_table_def email_prompt_def review_prompt_def)
  have f: "failed (failing_single (getPromptById_query 2))"
    by (simp add: failed_def failing_single_def)
  have "getPromptById (data_store_single sample_engine sample_table) 2 = Some review_prompt"
    using lookup_by_id [of sample_table sample_engine 2 failing_single] d r by blast
  moreover have "getPromptById (data_store_single sample_engine sample_table) 7 = None"
    using lookup_by_id [of sample_table sample_engine 7 failing_single] d n by blast
  moreover have "getPromptById failing_single 2 = None"
    using lookup_by_id [of sample_table sample_engine 2 failing_single] f by blast
  ultimately show ?thesis using d r f by blast
qed

subsection \<open>GET /api/prompts\<close>

text \<open>
  C8. Every response of the handler built on searchPrompts has status 200; its body
  carries the rows found, their number as \<^verbatim>\<open>count\<close>, and as \<^verbatim>\<open>query\<close> the
  parsed parameters, the same values that were handed to searchPrompts. The parsed
  parameters are these:
  \<^item> \<^verbatim>\<open>query\<close> is the text given, and the empty string when the parameter is absent;
  \<^item> \<^verbatim>\<open>category\<close> is the text given, and null when the parameter is absent or empty;
  \<^item> \<^verbatim>\<open>tags\<close> are the trimmed, non-empty pieces of the text given, split at its
    commas, and the empty list when the parameter is absent;
  \<^item> \<^verbatim>\<open>limit\<close> is 50 and \<^verbatim>\<open>offset\<close> is 0 when the parameter is absent or empty;
    otherwise each is whatever \<^verbatim>\<open>parseInt\<close> makes of the text given: \<^verbatim>\<open>-5\<close> is
    \<open>-5\<close>, \<^verbatim>\<open>abc\<close> is NaN, \<^verbatim>\<open>12px\<close> is 12, \<^verbatim>\<open>9007199254740993\<close> is
    9007199254740992, and a text of 310 digits 9 is Infinity.
  Nothing is checked: the window of the request is computed from these numbers as they
  are.
\<close>

theorem prompts_endpoint:
  "GET_prompts db get
     = \<lparr>status = 200,
        body = PromptsBody (searchPrompts db (GET_prompts_params get))
                 (length (searchPrompts db (GET_prompts_params get)))
                 (GET_prompts_params get)\<rparr>
   \<and> (get ''query'' = None \<longrightarrow> sp_query (GET_prompts_params get) = Some [])
   \<and> (get ''query'' = Some s \<longrightarrow> sp_query (GET_prompts_params get) = Some s)
   \<and> (get ''category'' = None \<or> get ''category'' = Some [] \<longrightarrow>
         sp_category (GET_prompts_params get) = None)
   \<and> (get ''category'' = Some c \<and> c \<noteq> [] \<longrightarrow> sp_category (GET_prompts_params get) = Some c)
   \<and> (get ''tags'' = None \<longrightarrow> sp_tags (GET_prompts_params get) = Some [])
   \<and> (get ''tags'' = Some t \<longrightarrow>
         sp_tags (GET_prompts_params get)
           = Some (filter (\<lambda>w. w \<noteq> []) (map trim (split_on CHR '','' t))))
   \<and> (get ''limit'' = None \<or> get ''limit'' = Some [] \<longrightarrow>
         sp_limit (GET_prompts_params get) = Some (Num 50))
   \<and> (get ''limit'' = Some l \<and> l \<noteq> [] \<longrightarrow>
         sp_limit (GET_prompts_params get) = Some (parseInt10 l))
   \<and> (get ''offset'' = None \<or> get ''offset'' = Some [] \<longrightarrow>
         sp_offset (GET_prompts_params get) = Some (Num 0))
   \<and> (get ''offset'' = Some off \<and> off \<noteq> [] \<longrightarrow>
         sp_offset (GET_prompts_params get) = Some (parseInt10 off))
   \<and> window (searchPrompts_query (GET_prompts_params get))
        = Some (offset_of (GET_prompts_params get),
                js_sub (js_add (offset_of (GET_prompts_params get))
                               (limit_of (GET_prompts_params get))) (Num 1))
   \<and> parseInt10 ''-5'' = Num (- 5)
   \<and> parseInt10 ''abc'' = NaN
   \<and> parseInt10 ''12px'' = Num 12
   \<and> parseInt10 ''9007199254740993'' = Num 9007199254740992
   \<and> parseInt10 (replicate 310 CHR ''9'') = Infinity"
proof -
  have fifty: "parseInt10 ''50'' = Num 50" by code_simp
  have zero: "parseInt10 ''0'' = Num 0" by code_simp
  have response: "GET_prompts db get
     = \<lparr>status = 200,
        body = PromptsBody (searchPrompts db (GET_prompts_params get))
                 (length (searchPrompts db (GET_prompts_params get)))
                 (GET_prompts_params get)\<rparr>"
    by (simp add: GET_prompts_def GET_prompts_with_def Let_def)
  have query: "(get ''query'' = None \<longrightarrow> sp_query (GET_prompts_params get) = Some [])
      \<and> (get ''query'' = Some s \<longrightarrow> sp_query (GET_prompts_params get) = Some s)"
    by (simp add: GET_prompts_params_def or_default_def)
  have category: "(get ''category'' = None \<or> get ''category'' = Some [] \<longrightarrow>
         sp_category (GET_prompts_params get) = None)
      \<and> (get ''category'' = Some c \<and> c \<noteq> [] \<longrightarrow> sp_category (GET_prompts_params get) = Some c)"
    by (auto simp: GET_prompts_params_def)
  have tags: "(get ''tags'' = None \<longrightarrow> sp_tags (GET_prompts_params get) = Some [])
      \<and> (get ''tags'' = Some t \<longrightarrow>
         sp_tags (GET_prompts_params get)
           = Some (filter (\<lambda>w. w \<noteq> []) (map trim (split_on CHR '','' t))))"
    by (simp add: GET_prompts_params_def parse_tags_def)
  have limit: "(get ''limit'' = None \<or> get ''limit'' = Some [] \<longrightarrow>
         sp_limit (GET_prompts_params get) = Some (Num 50))
      \<and> (get ''limit'' = Some l \<and> l \<noteq> [] \<longrightarrow>
         sp_limit (GET_prompts_params get) = Some (parseInt10 l))"
    by (auto simp: GET_prompts_params_def or_default_def fifty)
  have offset: "(get ''offset'' = None \<or> get ''offset'' = Some [] \<longrightarrow>
         sp_offset (GET_prompts_params get) = Some (Num 0))
      \<and> (get ''offset'' = Some off \<and> off \<noteq> [] \<longrightarrow>
         sp_offset (GET_prompts_params get) = Some (parseInt10 off))"
    by (auto simp: GET_prompts_params_def or_default_def zero)
  have window: "window (searchPrompts_query (GET_prompts_params get))
        = Some (offset_of (GET_prompts_params get),
                js_sub (js_add (offset_of (GET_prompts_params get))
                               (limit_of (GET_prompts_params get))) (Num 1))"
    by (simp add: searchPrompts_query_shape)
  have p1: "parseInt10 ''-5'' = Num (- 5)" by code_simp
  have p2: "parseInt10 ''abc'' = NaN" by code_simp
  have p3: "parseInt10 ''12px'' = Num 12" by code_simp
  have p4: "parseInt10 ''9007199254740993'' = Num 9007199254740992" by code_simp
  have p5: "parseInt10 (replicate 310 CHR ''9'') = Infinity" by code_simp
  from response query [THEN conjunct1] query [THEN conjunct2]
    category [THEN conjunct1] category [THEN conjunct2] tags [THEN conjunct1]
    tags [THEN conjunct2] limit [THEN conjunct1] limit [THEN conjunct2]
    offset [THEN conjunct1] offset [THEN conjunct2] window p1 p2 p3 p4 p5
  show ?thesis
    by (intro conjI)
qed

theorem prompts_endpoint_witness:
  "GET_prompts_params no_params
     = \<lparr>sp_query = Some [], sp_category = None, sp_tags = Some [],
        sp_limit = Some (Num 50), sp_offset = Some (Num 0)\<rparr>
   \<and> GET_prompts_params blank_params
     = \<lparr>sp_query = Some [], sp_category = None, sp_tags = Some [],
        sp_limit = Some (Num 50), sp_offset = Some (Num 0)\<rparr>
   \<and> GET_prompts_params given_params
     = \<lparr>sp_query = Some ''email'', sp_category = Some ''Writing'',
        sp_tags = Some [''email'', ''business''],
        sp_limit = Some (Num 1), sp_offset = Some (Num 0)\<rparr>
   \<and> sp_limit (GET_prompts_params odd_params) = Some (Num (- 5))
   \<and> sp_offset (GET_prompts_params odd_params) = Some NaN
   \<and> sp_tags (GET_prompts_params odd_params) = Some [''a'', ''b'']
   \<and> window (searchPrompts_query (GET_prompts_params odd_params)) = Some (NaN, NaN)
   \<and> GET_prompts (data_store sample_engine sample_table) no_params
        = \<lparr>status = 200,
           body = PromptsBody [review_prompt, email_prompt] 2 (GET_prompts_params no_params)\<rparr>
   \<and> GET_prompts (data_store sample_engine sample_table) given_params
        = \<lparr>status = 200,
           body = PromptsBody [email_prompt] 1 (GET_prompts_params given_params)\<rparr>"
proof -
  note dflt = prompts_endpoint [of "data_store sample_engine sample_table" no_params
      "[]" "[]" "[]" "[]" "[]"]
  note blank = prompts_endpoint [of "data_store sample_engine sample_table" blank_params
      "[]" "[]" "[]" "[]" "[]"]
  note given = prompts_endpoint [of "data_store sample_engine sample_table" given_params
      "''email''" "''Writing''" "''email,business''" "''1''" "''0''"]
  note odd = prompts_endpoint [of "data_store sample_engine sample_table" odd_params
      "[]" "[]" "''a, ,b,''" "''-5''" "''abc''"]
  have "sp_query (GET_prompts_params no_params) = Some []
      \<and> sp_category (GET_prompts_params no_params) = None
      \<and> sp_tags (GET_prompts_params no_params) = Some []
      \<and> sp_limit (GET_prompts_params no_params) = Some (Num 50)
      \<and> sp_offset (GET_prompts_params no_params) = Some (Num 0)"
    using dflt by (simp add: no_params_def)
  then have d: "GET_prompts_params no_params
        = \<lparr>sp_query = Some [], sp_category = None, sp_tags = Some [],
           sp_limit = Some (Num 50), sp_offset = Some (Num 0)\<rparr>"
    by (cases "GET_prompts_params no_params") simp
  have "sp_query (GET_prompts_params blank_params) = Some []
      \<and> sp_category (GET_prompts_params blank_params) = None
      \<and> sp_tags (GET_prompts_params blank_params) = Some []
      \<and> sp_limit (GET_prompts_params blank_params) = Some (Num 50)
      \<and> sp_offset (GET_prompts_params blank_params) = Some (Num 0)"
    using blank by (simp add: blank_params_def)
  then have b: "GET_prompts_params blank_params
        = \<lparr>sp_query = Some [], sp_category = None, sp_tags = Some [],
           sp_limit = Some (Num 50), sp_offset = Some (Num 0)\<rparr>"
    by (cases "GET_prompts_params blank_params") simp
  have pieces: "filter (\<lambda>w. w \<noteq> []) (map trim (split_on CHR '','' ''email,business''))
                  = [''email'', ''business'']"
    by code_simp
  have one: "parseInt10 ''1'' = Num 1" by code_simp
  have zero: "parseInt10 ''0'' = Num 0" by code_simp
  have "sp_query (GET_prompts_params given_params) = Some ''email''
      \<and> sp_category (GET_prompts_params given_params) = Some ''Writing''
      \<and> sp_tags (GET_prompts_params given_params) = Some [''email'', ''business'']
      \<and> sp_limit (GET_prompts_params given_params) = Some (Num 1)
      \<and> sp_offset (GET_prompts_params given_params) = Some (Num 0)"
    using given unfolding pieces one zero by (simp add: given_params_def)
  then have g: "GET_prompts_params given_params
     = \<lparr>sp_query = Some ''email'', sp_category = Some ''Writing'',
        sp_tags = Some [''email'', ''business''],
        sp_limit = Some (Num 1), sp_offset = Some (Num 0)\<rparr>"
    by (cases "GET_prompts_params given_params") simp
  have odd_pieces: "filter (\<lambda>w. w \<noteq> []) (map trim (split_on CHR '','' ''a, ,b,''))
                      = [''a'', ''b'']"
    by code_simp
  have l: "sp_limit (GET_prompts_params odd_params) = Some (Num (- 5))"
    using odd unfolding odd_pieces by (simp add: odd_params_def)
  have f: "sp_offset (GET_prompts_params odd_params) = Some NaN"
    using odd unfolding odd_pieces by (simp add: odd_params_def)
  have t: "sp_tags (GET_prompts_params odd_params) = Some [''a'', ''b'']"
    using odd unfolding odd_pieces by (simp add: odd_params_def)
  have w: "window (searchPrompts_query (GET_prompts_params odd_params)) = Some (NaN, NaN)"
    using odd l f unfolding odd_pieces by (simp add: offset_of_def limit_of_def)
  have "searchPrompts (data_store sample_engine sample_table) (GET_prompts_params no_params)
          = [review_prompt, email_prompt]"
    unfolding d by code_simp
  with dflt have r1: "GET_prompts (data_store sample_engine sample_table) no_params
        = \<lparr>status = 200,
           body = PromptsBody [review_prompt, email_prompt] 2 (GET_prompts_params no_params)\<rparr>"
    by simp
  have "searchPrompts (data_store sample_engine sample_table) (GET_prompts_params given_params)
          = [email_prompt]"
    unfolding g by code_simp
  with given [unfolded pieces] have r2: "GET_prompts (data_store sample_engine sample_table) given_params
        = \<lparr>status = 200,
           body = PromptsBody [email_prompt] 1 (GET_prompts_params given_params)\<rparr>"
    by simp
  from d b g l f t w r1 r2 show ?thesis
    by (intro conjI)
qed

subsection \<open>The tags parameter\<close>

text \<open>
  C10. When the \<^verbatim>\<open>tags\<close> parameter is the segments \<open>ws\<close> joined with commas (no
  segment containing a comma), the tag list handed to searchPrompts is the list of the
  trimmed segments without the empty ones. Every tag of the list is non-empty, has no
  white space at either end and no comma. Without the parameter the list is empty, and
  the request then carries no \<^verbatim>\<open>contains\<close> filter.
\<close>

theorem tags_parameter:
  "(ws \<noteq> [] \<and> (\<forall>w\<in>set ws. CHR '','' \<notin> set w) \<longrightarrow>
      parse_tags (Some (join_commas ws)) = filter (\<lambda>t. t \<noteq> []) (map trim ws))
   \<and> (\<forall>t\<in>set (parse_tags v). t \<noteq> [] \<and> trim t = t \<and> CHR '','' \<notin> set t)
   \<and> sp_tags (GET_prompts_params get) = Some (parse_tags (get ''tags''))
   \<and> (get ''tags'' = None \<longrightarrow>
        sp_tags (GET_prompts_params get) = Some []
        \<and> (\<forall>col ts. Contains col ts \<notin> set (filters (searchPrompts_query (GET_prompts_params get)))))"
proof -
  have 1: "ws \<noteq> [] \<and> (\<forall>w\<in>set ws. CHR '','' \<notin> set w) \<longrightarrow>
      parse_tags (Some (join_commas ws)) = filter (\<lambda>t. t \<noteq> []) (map trim ws)"
    using parse_tags_join by blast
  have 2: "\<forall>t\<in>set (parse_tags v). t \<noteq> [] \<and> trim t = t \<and> CHR '','' \<notin> set t"
    using parse_tags_elements by blast
  have 3: "sp_tags (GET_prompts_params get) = Some (parse_tags (get ''tags''))"
    by (simp add: GET_prompts_params_def)
  have 4: "sp_tags (GET_prompts_params get) = Some []
        \<and> (\<forall>col ts. Contains col ts \<notin> set (filters (searchPrompts_query (GET_prompts_params get))))"
    if "get ''tags'' = None"
    using that
    by (auto simp: GET_prompts_params_def parse_tags_def searchPrompts_query_shape
          text_filters_def category_filters_def tag_filters_def tags_of_def split: if_splits)
  from 1 2 3 4 show ?thesis by blast
qed

theorem tags_parameter_witness:
  "[''a'', '' '', ''b'', []] \<noteq> ([] :: string list)
   \<and> CHR '','' \<notin> set ''a'' \<and> CHR '','' \<notin> set '' '' \<and> CHR '','' \<notin> set ''b''
   \<and> CHR '','' \<notin> set ''''
   \<and> join_commas [''a'', '' '', ''b'', []] = ''a, ,b,''
   \<and> parse_tags (Some ''a, ,b,'') = [''a'', ''b'']
   \<and> ''b'' \<in> set (parse_tags (Some ''a, ,b,'')) \<and> trim ''b'' = ''b''
   \<and> no_params ''tags'' = None
   \<and> sp_tags (GET_prompts_params no_params) = Some []"
proof -
  have h: "[''a'', '' '', ''b'', []] \<noteq> ([] :: string list)
           \<and> (\<forall>w\<in>set [''a'', '' '', ''b'', []]. CHR '','' \<notin> set w)"
    by simp
  have j: "join_commas [''a'', '' '', ''b'', []] = ''a, ,b,''" by simp
  have "parse_tags (Some (join_commas [''a'', '' '', ''b'', []]))
          = filter (\<lambda>t. t \<noteq> []) (map trim [''a'', '' '', ''b'', []])"
    using tags_parameter [of "[''a'', '' '', ''b'', []]" None no_params] h by blast
  also have "\<dots> = [''a'', ''b'']" by code_simp
  finally have p: "parse_tags (Some ''a, ,b,'') = [''a'', ''b'']" by (simp only: j)
  then have m: "''b'' \<in> set (parse_tags (Some ''a, ,b,''))" by simp
  then have t: "trim ''b'' = ''b''"
    using tags_parameter [of "[''a'']" "Some ''a, ,b,''" no_params] by blast
  have n: "no_params ''tags'' = None" by (simp add: no_params_def)
  have "sp_tags (GET_prompts_params no_params) = Some []"
    using tags_parameter [of "[''a'']" None no_params] n by blast
  then show ?thesis using h j p m t n by simp
qed

subsection \<open>GET /api/stats\<close>

text \<open>
  C9. The endpoint answers with status 200 and a body whose \<^verbatim>\<open>categories\<close> and
  \<^verbatim>\<open>tags\<close> are the lengths of \<^verbatim>\<open>categoriesList\<close> and \<^verbatim>\<open>tagsList\<close> and
  whose \<^verbatim>\<open>total\<close> is the value of getPromptCount, on the Data Store the number of
  rows of the table. When one of the three awaited calls throws, the handler answers
  with status 500 and the body \<^verbatim>\<open>{ error, total: 0, categories: 0, tags: 0 }\<close>.
\<close>

theorem stats_endpoint:
  "GET_stats db
     = \<lparr>status = 200,
        body = StatsBody (getPromptCount db) (length (getCategories db)) (length (getTags db))
                 (getCategories db) (getTags db)\<rparr>
   \<and> getPromptCount (data_store eng tbl) = int (length tbl)
   \<and> GET_stats_with (Fulfilled n) (Fulfilled cs) (Fulfilled ts)
        = \<lparr>status = 200, body = StatsBody n (length cs) (length ts) cs ts\<rparr>
   \<and> GET_stats_with Throws b c
        = \<lparr>status = 500, body = StatsError ''Failed to fetch statistics'' 0 0 0\<rparr>
   \<and> GET_stats_with a Throws c
        = \<lparr>status = 500, body = StatsError ''Failed to fetch statistics'' 0 0 0\<rparr>
   \<and> GET_stats_with a b Throws
        = \<lparr>status = 500, body = StatsError ''Failed to fetch statistics'' 0 0 0\<rparr>"
proof -
  have 1: "GET_stats_with a Throws c
        = \<lparr>status = 500, body = StatsError ''Failed to fetch statistics'' 0 0 0\<rparr>"
    by (cases a) simp_all
  have 2: "GET_stats_with a b Throws
        = \<lparr>status = 500, body = StatsError ''Failed to fetch statistics'' 0 0 0\<rparr>"
    by (cases a; cases b) simp_all
  show ?thesis
    by (simp add: GET_stats_def getPromptCount_data_store 1 2)
qed

theorem stats_endpoint_witness:
  "GET_stats (data_store sample_engine sample_table)
     = \<lparr>status = 200,
        body = StatsBody 2 2 3 [Some ''Development'', Some ''Writing'']
                 [''business'', ''code'', ''email'']\<rparr>"
proof -
  have c: "getCategories (data_store sample_engine sample_table)
             = [Some ''Development'', Some ''Writing'']"
    by code_simp
  have t: "getTags (data_store sample_engine sample_table) = [''business'', ''code'', ''email'']"
    by code_simp
  have n: "getPromptCount (data_store sample_engine sample_table) = 2"
    using stats_endpoint [of "data_store sample_engine sample_table" sample_engine sample_table]
    by (simp add: sample_table_def)
  show ?thesis
    using stats_endpoint [of "data_store sample_engine sample_table" sample_engine sample_table]
    by (simp add: c t n)
qed

end
